theory Spec2Isabelle
  imports Main
begin

section \<open>Data model of huaweicloud/config.go\<close>

text \<open>
  Go's \<open>error\<close> values are modelled by their message; a run-time panic (a nil pointer
  dereference) is kept apart from a returned error.
\<close>

datatype error = Errorf string | Panic string

type_synonym addr = nat

text \<open>\<open>golangsdk.AKSKAuthOptions\<close>, with the fields config.go reads or writes.\<close>

record AKSKAuthOptions =
  aksk_IdentityEndpoint :: string
  aksk_ProjectId :: string
  aksk_ProjectName :: string
  aksk_Region :: string
  aksk_Domain :: string
  aksk_DomainID :: string
  aksk_BssDomain :: string
  aksk_BssDomainID :: string
  aksk_AccessKey :: string
  aksk_SecretKey :: string
  aksk_AgencyName :: string
  aksk_AgencyDomainName :: string
  aksk_DelegatedProject :: string

text \<open>\<open>golangsdk.AuthOptions\<close>, with the fields config.go reads or writes.\<close>

record AuthOptions =
  ao_IdentityEndpoint :: string
  ao_Username :: string
  ao_UserID :: string
  ao_Password :: string
  ao_DomainID :: string
  ao_DomainName :: string
  ao_TenantID :: string
  ao_TenantName :: string
  ao_TokenID :: string
  ao_AgencyName :: string
  ao_AgencyDomainName :: string
  ao_DelegatedProject :: string

text \<open>The interface \<open>golangsdk.AuthOptionsProvider\<close> has these two implementations.\<close>

datatype AuthOptionsProvider = AO AuthOptions | AKSK AKSKAuthOptions

fun GetIdentityEndpoint :: "AuthOptionsProvider \<Rightarrow> string" where
  "GetIdentityEndpoint (AO a) = ao_IdentityEndpoint a"
| "GetIdentityEndpoint (AKSK a) = aksk_IdentityEndpoint a"

text \<open>
  \<open>tls.Config\<close> as \<open>generateTLSConfig\<close> fills it, and the \<open>LogRoundTripper\<close> that
  \<open>genClient\<close> installs as the HTTP transport of a client.
\<close>

record TLSConfig =
  RootCAs :: "string option"
  InsecureSkipVerify :: bool
  Certificates :: "(string \<times> string) list"

record LogRoundTripper =
  Rt :: TLSConfig
  OsDebug :: bool
  lrt_MaxRetries :: int

text \<open>
  \<open>golangsdk.ProviderClient\<close>. Strings and the key-pair options are held by value;
  \<open>HTTPClient.Transport\<close> is a pointer to a \<open>LogRoundTripper\<close>, an address into the
  store of transports.
\<close>

record ProviderClient =
  pc_IdentityEndpoint :: string
  pc_TokenID :: string
  pc_ProjectID :: string
  pc_DomainID :: string
  pc_UserAgent :: "string list"
  pc_Transport :: "addr option"
  pc_AKSKAuthOptions :: AKSKAuthOptions

text \<open>\<open>golangsdk.ServiceClient\<close>: a pointer to its provider client and two strings.\<close>

record ServiceClient =
  sc_ProviderClient :: "addr option"
  sc_Endpoint :: string
  sc_ResourceBase :: string

text \<open>
  \<open>ServiceCatalog\<close>: its declaration and the table \<open>allServiceCatalog\<close> are outside the
  files at hand; the fields are those config.go reads, and the table is a parameter.
\<close>

record ServiceCatalog =
  cat_Name :: string
  cat_Version :: string
  cat_Scope :: string
  cat_Admin :: bool
  cat_WithOutProjectID :: bool
  cat_ResourceBase :: string

text \<open>\<open>projects.ListOpts\<close> and \<open>projects.Project\<close> of the identity service.\<close>

record ListOpts =
  lo_DomainID :: string
  lo_Name :: string

record Project =
  proj_Name :: string
  proj_ID :: string

text \<open>The session of the S3 client that \<open>newS3Session\<close> builds.\<close>

record AwsConfig =
  aws_Credentials :: string
  aws_Region :: string
  aws_Debug :: bool
  aws_InsecureSkipVerify :: bool

text \<open>
  \<open>Config\<close>. The two clients are pointers (nil is \<open>None\<close>). \<open>RPLock\<close> serialises the
  calls of \<open>newServiceClientByName\<close>; the model runs the calls one after the other and
  has no field for it.
\<close>

record Config =
  AccessKey :: string
  SecretKey :: string
  CACertFile :: string
  ClientCertFile :: string
  ClientKeyFile :: string
  DomainID :: string
  DomainName :: string
  IdentityEndpoint :: string
  Insecure :: bool
  Password :: string
  Region :: string
  TenantID :: string
  TenantName :: string
  Token :: string
  Username :: string
  UserID :: string
  AgencyName :: string
  AgencyDomainName :: string
  DelegatedProject :: string
  Cloud :: string
  MaxRetries :: int
  TerraformVersion :: string
  RegionClient :: bool
  EnterpriseProjectID :: string
  HwClient :: "addr option"
  s3sess :: "AwsConfig option"
  DomainClient :: "addr option"
  RegionProjectIDMap :: "string \<rightharpoonup> string"

text \<open>
  Requests sent to the identity service: an authentication, or a listing of projects
  (endpoint, client used, filter).
\<close>

datatype Call =
  AuthCall AuthOptionsProvider
| ListProjectsCall string "addr option" ListOpts

text \<open>
  The store: provider clients and transports live at addresses (an address is an index,
  a new object goes to the end), and \<open>calls\<close> records the requests sent so far.
\<close>

record World =
  clients :: "ProviderClient list"
  transports :: "LogRoundTripper list"
  calls :: "Call list"

text \<open>
  What lies outside the repository: the SDK, the identity service, the file system and
  the AWS library. An answer of the identity service may depend on the requests made
  before. An error of a collaborator is given by its message; \<open>CredsGet\<close> also gives
  the code of an \<open>awserr.Error\<close>.
\<close>

record Env =
  allServiceCatalog :: "string \<rightharpoonup> ServiceCatalog"
  NewClient :: "string \<Rightarrow> string + ProviderClient"
  TerraformUserAgent :: "string \<Rightarrow> string"
  ReadPathOrContents :: "string \<Rightarrow> string + string"
  X509KeyPair :: "string \<Rightarrow> string \<Rightarrow> string + (string \<times> string)"
  IsDebugOrHigher :: bool
  Authenticate :: "Call list \<Rightarrow> ProviderClient \<Rightarrow> AuthOptionsProvider \<Rightarrow> string + ProviderClient"
  GetCredentials :: "Config \<Rightarrow> string + string"
  CredsGet :: "string \<Rightarrow> (string option \<times> string) + string"
  NewSession :: "AwsConfig \<Rightarrow> string + AwsConfig"
  ListAllPages :: "Call list \<Rightarrow> string \<Rightarrow> ListOpts \<Rightarrow> string + string"
  ExtractProjects :: "string \<Rightarrow> string + Project list"

section \<open>Service clients\<close>

definition deref :: "World \<Rightarrow> addr option \<Rightarrow> ProviderClient option" where
  "deref w p = (case p of None \<Rightarrow> None
     | Some a \<Rightarrow> if a < length (clients w) then Some (clients w ! a) else None)"

definition nil_dereference :: error where
  "nil_dereference = Panic ''invalid memory address or nil pointer dereference''"

text \<open>Reading a Go map at a missing key gives the zero value.\<close>

definition zero_ServiceCatalog :: ServiceCatalog where
  "zero_ServiceCatalog = \<lparr>cat_Name = '''', cat_Version = '''', cat_Scope = '''',
     cat_Admin = False, cat_WithOutProjectID = False, cat_ResourceBase = ''''\<rparr>"

definition lookup_catalog :: "Env \<Rightarrow> string \<Rightarrow> ServiceCatalog" where
  "lookup_catalog env srv =
     (case allServiceCatalog env srv of Some e \<Rightarrow> e | None \<Rightarrow> zero_ServiceCatalog)"

definition lookup_region :: "(string \<rightharpoonup> string) \<Rightarrow> string \<Rightarrow> string" where
  "lookup_region m region = (case m region of Some p \<Rightarrow> p | None \<Rightarrow> '''')"

text \<open>The loop at the end of \<open>loadUserProjects\<close>: every item is stored under its own name.\<close>

fun store_projects :: "Project list \<Rightarrow> (string \<rightharpoonup> string) \<Rightarrow> (string \<rightharpoonup> string)" where
  "store_projects [] m = m"
| "store_projects (item # rest) m = store_projects rest (m(proj_Name item \<mapsto> proj_ID item))"

definition loadUserProjects ::
  "Env \<Rightarrow> addr option \<Rightarrow> string \<Rightarrow> Config \<Rightarrow> World \<Rightarrow> error option \<times> Config \<times> World" where
  "loadUserProjects env client region c w =
    (case deref w client of
       None \<Rightarrow> (Some nil_dereference, c, w)
     | Some cl \<Rightarrow>
        let opts = \<lparr>lo_DomainID = pc_DomainID cl, lo_Name = region\<rparr>;
            endpoint = IdentityEndpoint c @ ''/'';
            w1 = w\<lparr>calls := calls w @ [ListProjectsCall endpoint client opts]\<rparr>
        in (case ListAllPages env (calls w) endpoint opts of
              Inl e \<Rightarrow> (Some (Errorf (''List projects failed, err='' @ e)), c, w1)
            | Inr allPages \<Rightarrow>
               (case ExtractProjects env allPages of
                  Inl e \<Rightarrow> (Some (Errorf (''Extract projects failed, err='' @ e)), c, w1)
                | Inr all \<Rightarrow>
                   if length all = 0
                   then (Some (Errorf (''Wrong name or no access to the region: '' @ region)), c, w1)
                   else (None,
                         c\<lparr>RegionProjectIDMap := store_projects all (RegionProjectIDMap c)\<rparr>,
                         w1))))"

definition render_endpoint :: "Config \<Rightarrow> ServiceCatalog \<Rightarrow> string \<Rightarrow> string" where
  "render_endpoint c catalog region =
    (if cat_Scope catalog = ''global'' \<and> \<not> RegionClient c
     then ''https://'' @ cat_Name catalog @ ''.'' @ Cloud c @ ''/''
     else ''https://'' @ cat_Name catalog @ ''.'' @ region @ ''.'' @ Cloud c @ ''/'')"

definition render_resource_base :: "ServiceCatalog \<Rightarrow> string \<Rightarrow> string \<Rightarrow> string" where
  "render_resource_base catalog endpoint projectID =
    (let rb0 = endpoint @ cat_Version catalog @ ''/'';
         rb1 = (if \<not> cat_WithOutProjectID catalog then rb0 @ projectID @ ''/'' else rb0)
     in if cat_ResourceBase catalog \<noteq> '''' then rb1 @ cat_ResourceBase catalog @ ''/'' else rb1)"

definition region_mismatch :: error where
  "region_mismatch = Errorf ''Resource-level region must be the same as Provider-level region when using non AK/SK authentication if Resource-level region set''"

definition newServiceClientByName ::
  "Env \<Rightarrow> addr option \<Rightarrow> ServiceCatalog \<Rightarrow> string \<Rightarrow> Config \<Rightarrow> World
    \<Rightarrow> (error + ServiceClient) \<times> Config \<times> World" where
  "newServiceClientByName env client catalog region c w =
    (if cat_Name catalog = '''' \<or> cat_Version catalog = ''''
     then (Inl (Errorf ''must specify the service name and api version''), c, w)
     else if region \<noteq> Region c \<and> (AccessKey c = '''' \<or> SecretKey c = '''')
     then (Inl region_mismatch, c, w)
     else
       (case (case RegionProjectIDMap c region of
                Some p \<Rightarrow> (None, c, w)
              | None \<Rightarrow> loadUserProjects env client region c w) of
          (Some err, c1, w1) \<Rightarrow> (Inl err, c1, w1)
        | (None, c1, w1) \<Rightarrow>
           let projectID = lookup_region (RegionProjectIDMap c1) region
           in (case deref w1 client of
                 None \<Rightarrow> (Inl nil_dereference, c1, w1)
               | Some base \<Rightarrow>
                  let clone = base\<lparr>pc_ProjectID := projectID,
                                pc_AKSKAuthOptions := (pc_AKSKAuthOptions base)
                                  \<lparr>aksk_ProjectId := projectID, aksk_Region := region\<rparr>\<rparr>;
                      w2 = w1\<lparr>clients := clients w1 @ [clone]\<rparr>;
                      endpoint = render_endpoint c1 catalog region
                  in (Inr \<lparr>sc_ProviderClient = Some (length (clients w1)),
                            sc_Endpoint = endpoint,
                            sc_ResourceBase = render_resource_base catalog endpoint projectID\<rparr>,
                      c1, w2))))"

definition NewServiceClient ::
  "Env \<Rightarrow> string \<Rightarrow> string \<Rightarrow> Config \<Rightarrow> World \<Rightarrow> (error + ServiceClient) \<times> Config \<times> World" where
  "NewServiceClient env srv region c w =
    (let client = (if cat_Admin (lookup_catalog env srv) then DomainClient c else HwClient c)
     in newServiceClientByName env client (lookup_catalog env srv) region c w)"

section \<open>Provider setup\<close>

definition zero_AuthOptions :: AuthOptions where
  "zero_AuthOptions = \<lparr>ao_IdentityEndpoint = '''', ao_Username = '''', ao_UserID = '''',
     ao_Password = '''', ao_DomainID = '''', ao_DomainName = '''', ao_TenantID = '''',
     ao_TenantName = '''', ao_TokenID = '''', ao_AgencyName = '''', ao_AgencyDomainName = '''',
     ao_DelegatedProject = ''''\<rparr>"

definition zero_AKSKAuthOptions :: AKSKAuthOptions where
  "zero_AKSKAuthOptions = \<lparr>aksk_IdentityEndpoint = '''', aksk_ProjectId = '''',
     aksk_ProjectName = '''', aksk_Region = '''', aksk_Domain = '''', aksk_DomainID = '''',
     aksk_BssDomain = '''', aksk_BssDomainID = '''', aksk_AccessKey = '''', aksk_SecretKey = '''',
     aksk_AgencyName = '''', aksk_AgencyDomainName = '''', aksk_DelegatedProject = ''''\<rparr>"

definition read_client_pair :: "Env \<Rightarrow> Config \<Rightarrow> TLSConfig \<Rightarrow> error + TLSConfig" where
  "read_client_pair env c config =
    (if ClientCertFile c \<noteq> '''' \<and> ClientKeyFile c \<noteq> ''''
     then (case ReadPathOrContents env (ClientCertFile c) of
             Inl e \<Rightarrow> Inl (Errorf (''Error reading Client Cert: '' @ e))
           | Inr clientCert \<Rightarrow>
              (case ReadPathOrContents env (ClientKeyFile c) of
                 Inl e \<Rightarrow> Inl (Errorf (''Error reading Client Key: '' @ e))
               | Inr clientKey \<Rightarrow>
                  (case X509KeyPair env clientCert clientKey of
                     Inl e \<Rightarrow> Inl (Errorf e)
                   | Inr cert \<Rightarrow> Inr (config\<lparr>Certificates := [cert]\<rparr>))))
     else Inr config)"

definition generateTLSConfig :: "Env \<Rightarrow> Config \<Rightarrow> error + TLSConfig" where
  "generateTLSConfig env c =
    (let config = \<lparr>RootCAs = None, InsecureSkipVerify = False, Certificates = []\<rparr>
     in case (if CACertFile c \<noteq> ''''
              then (case ReadPathOrContents env (CACertFile c) of
                      Inl e \<Rightarrow> Inl (Errorf (''Error reading CA Cert: '' @ e))
                    | Inr caCert \<Rightarrow> Inr (config\<lparr>RootCAs := Some caCert\<rparr>))
              else Inr config) of
          Inl e \<Rightarrow> Inl e
        | Inr config1 \<Rightarrow>
           read_client_pair env c
             (if Insecure c then config1\<lparr>InsecureSkipVerify := True\<rparr> else config1))"

text \<open>
  \<open>genClient\<close>: the client is built, given its transport (a new \<open>LogRoundTripper\<close>, held
  by pointer) and authenticated; on success it is put into the store and its address
  returned. The redirect hook of the HTTP client only re-signs requests and is left out.
\<close>

definition genClient ::
  "Env \<Rightarrow> Config \<Rightarrow> AuthOptionsProvider \<Rightarrow> World \<Rightarrow> (error + addr) \<times> World" where
  "genClient env c ao w =
    (case NewClient env (GetIdentityEndpoint ao) of
       Inl e \<Rightarrow> (Inl (Errorf e), w)
     | Inr client0 \<Rightarrow>
        let client1 = client0\<lparr>pc_UserAgent :=
                        TerraformUserAgent env (TerraformVersion c) # pc_UserAgent client0\<rparr>
        in (case generateTLSConfig env c of
              Inl e \<Rightarrow> (Inl e, w)
            | Inr config \<Rightarrow>
               let w1 = w\<lparr>transports := transports w @
                          [\<lparr>Rt = config, OsDebug = IsDebugOrHigher env,
                            lrt_MaxRetries = MaxRetries c\<rparr>]\<rparr>;
                   client2 = client1\<lparr>pc_Transport := Some (length (transports w))\<rparr>;
                   w2 = w1\<lparr>calls := calls w1 @ [AuthCall ao]\<rparr>
               in (case Authenticate env (calls w) client2 ao of
                     Inl e \<Rightarrow> (Inl (Errorf e), w2)
                   | Inr client3 \<Rightarrow>
                      (Inr (length (clients w2)), w2\<lparr>clients := clients w2 @ [client3]\<rparr>))))"

definition newS3Session :: "Env \<Rightarrow> bool \<Rightarrow> Config \<Rightarrow> error option \<times> Config" where
  "newS3Session env osDebug c =
    (if AccessKey c \<noteq> '''' \<and> SecretKey c \<noteq> ''''
     then (case GetCredentials env c of
             Inl e \<Rightarrow> (Some (Errorf e), c)
           | Inr creds \<Rightarrow>
              (case CredsGet env creds of
                 Inl (code, msg) \<Rightarrow>
                   if code = Some ''NoCredentialProviders''
                   then (Some (Errorf ''No valid credential sources found for S3 Provider.''), c)
                   else (Some (Errorf (''Error loading credentials for S3 Provider: '' @ msg)), c)
               | Inr cp \<Rightarrow>
                  (case NewSession env \<lparr>aws_Credentials = creds, aws_Region = Region c,
                          aws_Debug = osDebug, aws_InsecureSkipVerify = Insecure c\<rparr> of
                     Inl e \<Rightarrow> (Some (Errorf (''Error creating Swift S3 session: '' @ e)),
                               c\<lparr>s3sess := None\<rparr>)
                   | Inr sess \<Rightarrow> (None, c\<lparr>s3sess := Some sess\<rparr>))))
     else (None, c))"

definition genClients ::
  "Env \<Rightarrow> Config \<Rightarrow> AuthOptionsProvider \<Rightarrow> AuthOptionsProvider \<Rightarrow> World
    \<Rightarrow> error option \<times> Config \<times> World" where
  "genClients env c pao dao w =
    (case genClient env c pao w of
       (Inl err, w1) \<Rightarrow> (Some err, c, w1)
     | (Inr client, w1) \<Rightarrow>
        let c1 = c\<lparr>HwClient := Some client\<rparr>
        in (case genClient env c1 dao w1 of
              (Inl err, w2) \<Rightarrow> (Some err, c1, w2)
            | (Inr client', w2) \<Rightarrow> (None, c1\<lparr>DomainClient := Some client'\<rparr>, w2)))"

definition agency :: "Config \<Rightarrow> bool" where
  "agency c = (AgencyDomainName c \<noteq> '''' \<and> AgencyName c \<noteq> '''')"

definition token_pao :: "Config \<Rightarrow> AuthOptions" where
  "token_pao c =
    (if agency c
     then zero_AuthOptions\<lparr>ao_AgencyName := AgencyName c,
            ao_AgencyDomainName := AgencyDomainName c, ao_DelegatedProject := DelegatedProject c\<rparr>
     else zero_AuthOptions\<lparr>ao_DomainID := DomainID c, ao_DomainName := DomainName c,
            ao_TenantID := TenantID c, ao_TenantName := TenantName c\<rparr>)
    \<lparr>ao_IdentityEndpoint := IdentityEndpoint c, ao_TokenID := Token c\<rparr>"

definition token_dao :: "Config \<Rightarrow> AuthOptions" where
  "token_dao c =
    (if agency c
     then zero_AuthOptions\<lparr>ao_AgencyName := AgencyName c,
            ao_AgencyDomainName := AgencyDomainName c\<rparr>
     else zero_AuthOptions\<lparr>ao_DomainID := DomainID c, ao_DomainName := DomainName c\<rparr>)
    \<lparr>ao_IdentityEndpoint := IdentityEndpoint c, ao_TokenID := Token c\<rparr>"

definition buildClientByToken :: "Env \<Rightarrow> Config \<Rightarrow> World \<Rightarrow> error option \<times> Config \<times> World" where
  "buildClientByToken env c w = genClients env c (AO (token_pao c)) (AO (token_dao c)) w"

definition aksk_pao :: "Config \<Rightarrow> AKSKAuthOptions" where
  "aksk_pao c =
    (if agency c
     then zero_AKSKAuthOptions\<lparr>aksk_DomainID := DomainID c, aksk_Domain := DomainName c,
            aksk_AgencyName := AgencyName c, aksk_AgencyDomainName := AgencyDomainName c,
            aksk_DelegatedProject := DelegatedProject c\<rparr>
     else zero_AKSKAuthOptions\<lparr>aksk_BssDomainID := DomainID c, aksk_BssDomain := DomainName c,
            aksk_ProjectName := TenantName c, aksk_ProjectId := TenantID c\<rparr>)
    \<lparr>aksk_IdentityEndpoint := IdentityEndpoint c, aksk_AccessKey := AccessKey c,
     aksk_SecretKey := SecretKey c\<rparr>"

definition aksk_dao :: "Config \<Rightarrow> AKSKAuthOptions" where
  "aksk_dao c =
    (if agency c
     then zero_AKSKAuthOptions\<lparr>aksk_DomainID := DomainID c, aksk_Domain := DomainName c,
            aksk_AgencyName := AgencyName c, aksk_AgencyDomainName := AgencyDomainName c\<rparr>
     else zero_AKSKAuthOptions\<lparr>aksk_DomainID := DomainID c, aksk_Domain := DomainName c\<rparr>)
    \<lparr>aksk_IdentityEndpoint := IdentityEndpoint c, aksk_AccessKey := AccessKey c,
     aksk_SecretKey := SecretKey c\<rparr>"

definition buildClientByAKSK :: "Env \<Rightarrow> Config \<Rightarrow> World \<Rightarrow> error option \<times> Config \<times> World" where
  "buildClientByAKSK env c w = genClients env c (AKSK (aksk_pao c)) (AKSK (aksk_dao c)) w"

definition password_pao :: "Config \<Rightarrow> AuthOptions" where
  "password_pao c =
    (if agency c
     then zero_AuthOptions\<lparr>ao_DomainID := DomainID c, ao_DomainName := DomainName c,
            ao_AgencyName := AgencyName c, ao_AgencyDomainName := AgencyDomainName c,
            ao_DelegatedProject := DelegatedProject c\<rparr>
     else zero_AuthOptions\<lparr>ao_DomainID := DomainID c, ao_DomainName := DomainName c,
            ao_TenantID := TenantID c, ao_TenantName := TenantName c\<rparr>)
    \<lparr>ao_IdentityEndpoint := IdentityEndpoint c, ao_Password := Password c,
     ao_Username := Username c, ao_UserID := UserID c\<rparr>"

definition password_dao :: "Config \<Rightarrow> AuthOptions" where
  "password_dao c =
    (if agency c
     then zero_AuthOptions\<lparr>ao_DomainID := DomainID c, ao_DomainName := DomainName c,
            ao_AgencyName := AgencyName c, ao_AgencyDomainName := AgencyDomainName c\<rparr>
     else zero_AuthOptions\<lparr>ao_DomainID := DomainID c, ao_DomainName := DomainName c\<rparr>)
    \<lparr>ao_IdentityEndpoint := IdentityEndpoint c, ao_Password := Password c,
     ao_Username := Username c, ao_UserID := UserID c\<rparr>"

definition buildClientByPassword :: "Env \<Rightarrow> Config \<Rightarrow> World \<Rightarrow> error option \<times> Config \<times> World" where
  "buildClientByPassword env c w =
     genClients env c (AO (password_pao c)) (AO (password_dao c)) w"

definition no_auth_method :: error where
  "no_auth_method = Errorf ''Must config token or aksk or username password to be authorized''"

definition password_needs_user :: error where
  \<open>password_needs_user = Errorf ''"password": one of `user_name, user_id` must be specified''\<close>

text \<open>The end of \<open>LoadAndValidate\<close>: an error of the chosen builder is returned, else the
  S3 session is set up.\<close>

definition finish_setup ::
  "Env \<Rightarrow> error option \<times> Config \<times> World \<Rightarrow> error option \<times> Config \<times> World" where
  "finish_setup env r =
    (case r of
       (Some err, c1, w1) \<Rightarrow> (Some err, c1, w1)
     | (None, c1, w1) \<Rightarrow>
        (case newS3Session env (IsDebugOrHigher env) c1 of (err, c2) \<Rightarrow> (err, c2, w1)))"

definition LoadAndValidate :: "Env \<Rightarrow> Config \<Rightarrow> World \<Rightarrow> error option \<times> Config \<times> World" where
  "LoadAndValidate env c w =
    (if MaxRetries c < 0
     then (Some (Errorf ''max_retries should be a positive value''), c, w)
     else finish_setup env
       (if Token c \<noteq> '''' then buildClientByToken env c w
        else if AccessKey c \<noteq> '''' \<and> SecretKey c \<noteq> '''' then buildClientByAKSK env c w
        else if Password c \<noteq> ''''
        then (if Username c = '''' \<and> UserID c = ''''
              then (Some password_needs_user, c, w)
              else buildClientByPassword env c w)
        else (Some no_auth_method, c, w)))"

text \<open>
  The options of the provider block as \<open>configureProvider\<close> reads them from
  \<open>schema.ResourceData\<close>: \<open>d.Get\<close> gives the value of an option or the zero value.
\<close>

record ResourceData =
  d_access_key :: string
  d_secret_key :: string
  d_cacert_file :: string
  d_cert :: string
  d_key :: string
  d_domain_id :: string
  d_domain_name :: string
  d_auth_url :: string
  d_insecure :: bool
  d_password :: string
  d_region :: string
  d_token :: string
  d_tenant_id :: string
  d_tenant_name :: string
  d_user_name :: string
  d_user_id :: string
  d_agency_name :: string
  d_agency_domain_name :: string
  d_delegated_project :: string
  d_cloud :: string
  d_max_retries :: int
  d_enterprise_project_id :: string

definition initial_config :: "ResourceData \<Rightarrow> string \<Rightarrow> Config" where
  "initial_config d terraformVersion =
    \<lparr>AccessKey = d_access_key d, SecretKey = d_secret_key d, CACertFile = d_cacert_file d,
     ClientCertFile = d_cert d, ClientKeyFile = d_key d, DomainID = d_domain_id d,
     DomainName = d_domain_name d, IdentityEndpoint = d_auth_url d, Insecure = d_insecure d,
     Password = d_password d, Region = d_region d, TenantID = d_tenant_id d,
     TenantName = (if d_tenant_name d \<noteq> '''' then d_tenant_name d else d_region d),
     Token = d_token d, Username = d_user_name d, UserID = d_user_id d,
     AgencyName = d_agency_name d, AgencyDomainName = d_agency_domain_name d,
     DelegatedProject =
       (if d_delegated_project d \<noteq> '''' then d_delegated_project d else d_region d),
     Cloud = d_cloud d, MaxRetries = d_max_retries d, TerraformVersion = terraformVersion,
     RegionClient = False, EnterpriseProjectID = d_enterprise_project_id d,
     HwClient = None, s3sess = None, DomainClient = None, RegionProjectIDMap = Map.empty\<rparr>"

definition configureProvider ::
  "Env \<Rightarrow> ResourceData \<Rightarrow> string \<Rightarrow> World \<Rightarrow> (error + Config) \<times> World" where
  "configureProvider env d terraformVersion w =
    (case LoadAndValidate env (initial_config d terraformVersion) w of
       (Some err, config, w1) \<Rightarrow> (Inl err, w1)
     | (None, config, w1) \<Rightarrow>
        (case deref w1 (HwClient config) of
           None \<Rightarrow> (Inr config, w1)
         | Some hw \<Rightarrow>
            if pc_ProjectID hw \<noteq> ''''
            then (Inr (config\<lparr>RegionProjectIDMap :=
                        (RegionProjectIDMap config)(Region config \<mapsto> pc_ProjectID hw)\<rparr>), w1)
            else (Inr config, w1)))"

text \<open>A run of the accessors: each element is a service name and a region.\<close>

fun run_clients :: "Env \<Rightarrow> (string \<times> string) list \<Rightarrow> Config \<Rightarrow> World \<Rightarrow> Config \<times> World" where
  "run_clients env [] c w = (c, w)"
| "run_clients env ((srv, region) # rest) c w =
     (case NewServiceClient env srv region c w of (r, c1, w1) \<Rightarrow> run_clients env rest c1 w1)"

section \<open>Notions used in the properties\<close>

text \<open>
  The listing of projects is filtered by name. An identity service honours the filter when
  every project it returns carries the name that was asked for.
\<close>

definition honours_name_filter :: "Env \<Rightarrow> bool" where
  "honours_name_filter env =
    (\<forall>log ep opts pages ps.
       ListAllPages env log ep opts = Inr pages \<longrightarrow> ExtractProjects env pages = Inr ps \<longrightarrow>
       (\<forall>p \<in> set ps. proj_Name p = lo_Name opts))"

text \<open>
  Key-pair authentication is the one in use when \<open>LoadAndValidate\<close> reaches
  \<open>buildClientByAKSK\<close>: no token, and both keys.
\<close>

definition uses_key_pair :: "Config \<Rightarrow> bool" where
  "uses_key_pair c = (Token c = '''' \<and> AccessKey c \<noteq> '''' \<and> SecretKey c \<noteq> '''')"

text \<open>A region is resolvable when it is cached or the identity service lists a project.\<close>

definition resolvable :: "Env \<Rightarrow> addr option \<Rightarrow> string \<Rightarrow> Config \<Rightarrow> World \<Rightarrow> bool" where
  "resolvable env client region c w =
    (RegionProjectIDMap c region \<noteq> None \<or>
     (case deref w client of
        None \<Rightarrow> False
      | Some cl \<Rightarrow>
         (case ListAllPages env (calls w) (IdentityEndpoint c @ ''/'')
                 \<lparr>lo_DomainID = pc_DomainID cl, lo_Name = region\<rparr> of
            Inl e \<Rightarrow> False
          | Inr pages \<Rightarrow>
             (case ExtractProjects env pages of Inl e \<Rightarrow> False | Inr ps \<Rightarrow> ps \<noteq> []))))"

text \<open>Two clients share their transport when both point to the same \<open>LogRoundTripper\<close>.\<close>

definition shares_transport :: "World \<Rightarrow> addr option \<Rightarrow> addr option \<Rightarrow> bool" where
  "shares_transport w p q =
    (case deref w p of
       None \<Rightarrow> False
     | Some x \<Rightarrow>
        (case deref w q of
           None \<Rightarrow> False
         | Some y \<Rightarrow> pc_Transport x \<noteq> None \<and> pc_Transport x = pc_Transport y))"

section \<open>Sample inputs\<close>

definition demo_catalog :: "string \<rightharpoonup> ServiceCatalog" where
  "demo_catalog =
    [''ecs'' \<mapsto> \<lparr>cat_Name = ''ecs'', cat_Version = ''v1'', cat_Scope = '''', cat_Admin = False,
        cat_WithOutProjectID = False, cat_ResourceBase = ''''\<rparr>,
     ''fgsv2'' \<mapsto> \<lparr>cat_Name = ''functiongraph'', cat_Version = ''v2'', cat_Scope = '''',
        cat_Admin = False, cat_WithOutProjectID = False, cat_ResourceBase = ''fgs''\<rparr>,
     ''cdn'' \<mapsto> \<lparr>cat_Name = ''cdn'', cat_Version = ''v1.0'', cat_Scope = ''global'',
        cat_Admin = False, cat_WithOutProjectID = True, cat_ResourceBase = ''''\<rparr>,
     ''iam'' \<mapsto> \<lparr>cat_Name = ''iam'', cat_Version = ''v3.0'', cat_Scope = ''global'',
        cat_Admin = True, cat_WithOutProjectID = True, cat_ResourceBase = ''''\<rparr>,
     ''broken'' \<mapsto> \<lparr>cat_Name = ''broken'', cat_Version = '''', cat_Scope = '''',
        cat_Admin = True, cat_WithOutProjectID = False, cat_ResourceBase = ''''\<rparr>]"

definition demo_new_client :: "string \<Rightarrow> string + ProviderClient" where
  "demo_new_client ep =
    (if ep = '''' then Inl ''no identity endpoint''
     else Inr \<lparr>pc_IdentityEndpoint = ep, pc_TokenID = '''', pc_ProjectID = '''',
            pc_DomainID = '''', pc_UserAgent = [], pc_Transport = None,
            pc_AKSKAuthOptions = zero_AKSKAuthOptions\<rparr>)"

text \<open>An identity service that accepts every credential.\<close>

fun demo_authenticate ::
  "Call list \<Rightarrow> ProviderClient \<Rightarrow> AuthOptionsProvider \<Rightarrow> string + ProviderClient" where
  "demo_authenticate log cl (AO a) =
     Inr (cl\<lparr>pc_TokenID := ''token-1'', pc_DomainID := ''domain-1'',
            pc_ProjectID := (if ao_TenantName a = '''' then ''''
                             else ''id-of-'' @ ao_TenantName a)\<rparr>)"
| "demo_authenticate log cl (AKSK a) =
     Inr (cl\<lparr>pc_AKSKAuthOptions := a, pc_DomainID := ''domain-1'',
            pc_ProjectID := (if aksk_ProjectName a = '''' then ''''
                             else ''id-of-'' @ aksk_ProjectName a)\<rparr>)"

text \<open>An identity service that refuses a scope without a project.\<close>

fun project_only_authenticate ::
  "Call list \<Rightarrow> ProviderClient \<Rightarrow> AuthOptionsProvider \<Rightarrow> string + ProviderClient" where
  "project_only_authenticate log cl (AO a) =
     (if ao_TenantName a = '''' \<and> ao_TenantID a = '''' then Inl ''domain scope refused''
      else demo_authenticate log cl (AO a))"
| "project_only_authenticate log cl (AKSK a) =
     (if aksk_ProjectName a = '''' \<and> aksk_ProjectId a = '''' then Inl ''domain scope refused''
      else demo_authenticate log cl (AKSK a))"

text \<open>
  The sample identity service lists, for a name, one project of that name; it lists nothing
  for \<open>nowhere\<close> and cannot be reached for \<open>offline\<close>.
\<close>

definition demo_env :: Env where
  "demo_env =
    \<lparr>allServiceCatalog = demo_catalog,
     NewClient = demo_new_client,
     TerraformUserAgent = (\<lambda>v. ''Terraform/'' @ v),
     ReadPathOrContents = (\<lambda>p. Inr p),
     X509KeyPair = (\<lambda>cert key. Inr (cert, key)),
     IsDebugOrHigher = False,
     Authenticate = demo_authenticate,
     GetCredentials = (\<lambda>c. Inr (AccessKey c)),
     CredsGet = (\<lambda>creds. Inr ''StaticProvider''),
     NewSession = (\<lambda>cfg. Inr cfg),
     ListAllPages = (\<lambda>log ep opts. if lo_Name opts = ''offline'' then Inl ''connection refused''
                                    else Inr (lo_Name opts)),
     ExtractProjects = (\<lambda>pages. if pages = ''nowhere'' then Inr []
                                 else Inr [\<lparr>proj_Name = pages, proj_ID = ''id-of-'' @ pages\<rparr>])\<rparr>"

text \<open>An identity service whose listing ignores the name asked for.\<close>

definition unfiltered_env :: Env where
  "unfiltered_env =
     demo_env\<lparr>ExtractProjects := (\<lambda>pages. Inr [\<lparr>proj_Name = ''north'', proj_ID = ''other-id''\<rparr>])\<rparr>"

definition demo_data :: ResourceData where
  "demo_data =
    \<lparr>d_access_key = ''AK'', d_secret_key = ''SK'', d_cacert_file = '''', d_cert = '''',
     d_key = '''', d_domain_id = '''', d_domain_name = ''acme'',
     d_auth_url = ''https://iam.example/v3'', d_insecure = False, d_password = '''',
     d_region = ''north'', d_token = '''', d_tenant_id = '''', d_tenant_name = '''',
     d_user_name = '''', d_user_id = '''', d_agency_name = '''', d_agency_domain_name = '''',
     d_delegated_project = '''', d_cloud = ''example.com'', d_max_retries = 5,
     d_enterprise_project_id = ''''\<rparr>"

definition empty_world :: World where
  "empty_world = \<lparr>clients = [], transports = [], calls = []\<rparr>"

text \<open>The provider that \<open>configureProvider\<close> builds from the sample options.\<close>

definition demo_config :: Config where
  "demo_config =
    \<lparr>AccessKey = ''AK'', SecretKey = ''SK'', CACertFile = '''', ClientCertFile = '''',
     ClientKeyFile = '''', DomainID = '''', DomainName = ''acme'',
     IdentityEndpoint = ''https://iam.example/v3'', Insecure = False, Password = '''',
     Region = ''north'', TenantID = '''', TenantName = ''north'', Token = '''', Username = '''',
     UserID = '''', AgencyName = '''', AgencyDomainName = '''', DelegatedProject = ''north'',
     Cloud = ''example.com'', MaxRetries = 5, TerraformVersion = ''0.12'', RegionClient = False,
     EnterpriseProjectID = '''', HwClient = Some 0,
     s3sess = Some \<lparr>aws_Credentials = ''AK'', aws_Region = ''north'', aws_Debug = False,
                aws_InsecureSkipVerify = False\<rparr>,
     DomainClient = Some 1, RegionProjectIDMap = [''north'' \<mapsto> ''id-of-north'']\<rparr>"

definition demo_pao :: AKSKAuthOptions where
  "demo_pao = zero_AKSKAuthOptions\<lparr>aksk_IdentityEndpoint := ''https://iam.example/v3'',
     aksk_ProjectName := ''north'', aksk_BssDomain := ''acme'', aksk_AccessKey := ''AK'',
     aksk_SecretKey := ''SK''\<rparr>"

definition demo_dao :: AKSKAuthOptions where
  "demo_dao = zero_AKSKAuthOptions\<lparr>aksk_IdentityEndpoint := ''https://iam.example/v3'',
     aksk_Domain := ''acme'', aksk_AccessKey := ''AK'', aksk_SecretKey := ''SK''\<rparr>"

definition demo_transport :: LogRoundTripper where
  "demo_transport = \<lparr>Rt = \<lparr>RootCAs = None, InsecureSkipVerify = False, Certificates = []\<rparr>,
     OsDebug = False, lrt_MaxRetries = 5\<rparr>"

definition demo_world :: World where
  "demo_world =
    \<lparr>clients =
       [\<lparr>pc_IdentityEndpoint = ''https://iam.example/v3'', pc_TokenID = '''',
         pc_ProjectID = ''id-of-north'', pc_DomainID = ''domain-1'',
         pc_UserAgent = [''Terraform/0.12''], pc_Transport = Some 0,
         pc_AKSKAuthOptions = demo_pao\<rparr>,
        \<lparr>pc_IdentityEndpoint = ''https://iam.example/v3'', pc_TokenID = '''',
         pc_ProjectID = '''', pc_DomainID = ''domain-1'',
         pc_UserAgent = [''Terraform/0.12''], pc_Transport = Some 1,
         pc_AKSKAuthOptions = demo_dao\<rparr>],
     transports = [demo_transport, demo_transport],
     calls = [AuthCall (AKSK demo_pao), AuthCall (AKSK demo_dao)]\<rparr>"

text \<open>
  Sample runs: the first construction of a client for the region \<open>south\<close>, which is not
  cached, against the sample service and against the service that ignores the filter.
\<close>

definition south_first :: "(error + ServiceClient) \<times> Config \<times> World" where
  "south_first = NewServiceClient demo_env ''ecs'' ''south'' demo_config demo_world"

definition south_unfiltered :: "(error + ServiceClient) \<times> Config \<times> World" where
  "south_unfiltered = NewServiceClient unfiltered_env ''ecs'' ''south'' demo_config demo_world"

text \<open>
  The providers that \<open>configureProvider\<close> builds when a token is configured, with and without
  the two keys. Both are authenticated by the token.
\<close>

definition token_config :: Config where
  "token_config = demo_config\<lparr>Token := ''tok''\<rparr>"

definition token_only_config :: Config where
  "token_only_config = demo_config\<lparr>Token := ''tok'', AccessKey := '''', SecretKey := '''',
     s3sess := None\<rparr>"

definition token_world :: World where
  "token_world =
    \<lparr>clients =
       [\<lparr>pc_IdentityEndpoint = ''https://iam.example/v3'', pc_TokenID = ''token-1'',
         pc_ProjectID = ''id-of-north'', pc_DomainID = ''domain-1'',
         pc_UserAgent = [''Terraform/0.12''], pc_Transport = Some 0,
         pc_AKSKAuthOptions = zero_AKSKAuthOptions\<rparr>,
        \<lparr>pc_IdentityEndpoint = ''https://iam.example/v3'', pc_TokenID = ''token-1'',
         pc_ProjectID = '''', pc_DomainID = ''domain-1'',
         pc_UserAgent = [''Terraform/0.12''], pc_Transport = Some 1,
         pc_AKSKAuthOptions = zero_AKSKAuthOptions\<rparr>],
     transports = [demo_transport, demo_transport],
     calls = [AuthCall (AO (token_pao token_config)), AuthCall (AO (token_dao token_config))]\<rparr>"

text \<open>A sample identity service that authenticates the project scope only.\<close>

definition strict_env :: Env where
  "strict_env = demo_env\<lparr>Authenticate := project_only_authenticate\<rparr>"

section \<open>Lemmas on the model\<close>

lemmas setup_defs = configureProvider_def LoadAndValidate_def finish_setup_def
  initial_config_def buildClientByToken_def buildClientByAKSK_def buildClientByPassword_def
  genClients_def genClient_def generateTLSConfig_def read_client_pair_def newS3Session_def
  token_pao_def token_dao_def aksk_pao_def aksk_dao_def password_pao_def password_dao_def
  agency_def zero_AuthOptions_def zero_AKSKAuthOptions_def deref_def Let_def

lemmas client_defs = NewServiceClient_def newServiceClientByName_def loadUserProjects_def
  lookup_catalog_def lookup_region_def zero_ServiceCatalog_def render_endpoint_def
  render_resource_base_def deref_def Let_def

lemmas demo_defs = demo_env_def demo_data_def empty_world_def demo_new_client_def
  demo_catalog_def demo_config_def demo_world_def demo_pao_def demo_dao_def
  demo_transport_def zero_AKSKAuthOptions_def

lemma demo_setup:
  "configureProvider demo_env demo_data ''0.12'' empty_world = (Inr demo_config, demo_world)"
  by (simp add: setup_defs demo_defs)

lemma demo_honours_name_filter: "honours_name_filter demo_env"
  by (auto simp: honours_name_filter_def demo_env_def split: if_splits)

lemma store_projects_dom: "dom (store_projects ps m) = dom m \<union> proj_Name ` set ps"
  by (induction ps arbitrary: m) auto

lemma store_projects_other:
  "\<forall>p \<in> set ps. proj_Name p \<noteq> k \<Longrightarrow> store_projects ps m k = m k"
  by (induction ps arbitrary: m) auto

lemma store_projects_append:
  "store_projects (ps @ qs) m = store_projects qs (store_projects ps m)"
  by (induction ps arbitrary: m) auto

lemma store_projects_value:
  "\<exists>p \<in> set ps. proj_Name p = k \<Longrightarrow>
   store_projects ps m k = Some (proj_ID (last (filter (\<lambda>p. proj_Name p = k) ps)))"
proof (induction ps arbitrary: m rule: rev_induct)
  case Nil
  then show ?case by simp
next
  case (snoc x xs)
  show ?case
  proof (cases "proj_Name x = k")
    case True
    then show ?thesis by (simp add: store_projects_append)
  next
    case False
    with snoc.prems have "\<exists>p \<in> set xs. proj_Name p = k" by auto
    from snoc.IH [OF this] False show ?thesis by (simp add: store_projects_append)
  qed
qed

lemma store_projects_le:
  assumes "\<forall>p \<in> set ps. proj_Name p = k" and "m k = None"
  shows "m \<subseteq>\<^sub>m store_projects ps m"
  unfolding map_le_def
proof
  fix a assume "a \<in> dom m"
  with assms(2) have "a \<noteq> k" by auto
  with assms(1) have "\<forall>p \<in> set ps. proj_Name p \<noteq> a" by auto
  then show "m a = store_projects ps m a" by (simp add: store_projects_other)
qed

lemma store_projects_dom_mono: "dom m \<subseteq> dom (store_projects ps m)"
  by (simp add: store_projects_dom)

lemma loadUserProjects_frame:
  assumes "loadUserProjects env client region c w = (e, c1, w1)"
  shows "c1 = c\<lparr>RegionProjectIDMap := RegionProjectIDMap c1\<rparr>"
    and "clients w1 = clients w" and "transports w1 = transports w"
    and "e \<noteq> None \<Longrightarrow> c1 = c"
  using assms
  by (auto simp: loadUserProjects_def Let_def
        split: option.splits sum.splits if_splits)

lemma loadUserProjects_dom:
  assumes "loadUserProjects env client region c w = (e, c1, w1)"
  shows "dom (RegionProjectIDMap c) \<subseteq> dom (RegionProjectIDMap c1)"
proof -
  from assms have "RegionProjectIDMap c1 = RegionProjectIDMap c \<or>
      (\<exists>ps. RegionProjectIDMap c1 = store_projects ps (RegionProjectIDMap c))"
    by (auto simp: loadUserProjects_def Let_def split: option.splits sum.splits if_splits)
  then show ?thesis
  proof
    assume "RegionProjectIDMap c1 = RegionProjectIDMap c"
    then show ?thesis by simp
  next
    assume "\<exists>ps. RegionProjectIDMap c1 = store_projects ps (RegionProjectIDMap c)"
    then obtain ps where "RegionProjectIDMap c1 = store_projects ps (RegionProjectIDMap c)" ..
    then show ?thesis by (simp only: store_projects_dom_mono)
  qed
qed

lemma loadUserProjects_le:
  assumes "loadUserProjects env client region c w = (e, c1, w1)"
    and "honours_name_filter env" and "RegionProjectIDMap c region = None"
  shows "RegionProjectIDMap c \<subseteq>\<^sub>m RegionProjectIDMap c1"
proof -
  have *: "\<And>log ep opts pages ps. ListAllPages env log ep opts = Inr pages \<Longrightarrow>
      ExtractProjects env pages = Inr ps \<Longrightarrow> \<forall>p \<in> set ps. proj_Name p = lo_Name opts"
    using assms(2) unfolding honours_name_filter_def by blast
  show ?thesis using assms(1,3)
    by (auto simp: loadUserProjects_def Let_def
          split: option.splits sum.splits if_splits
          dest!: * intro!: store_projects_le)
qed

lemma nsc_hit:
  assumes "RegionProjectIDMap c region = Some p"
    and "newServiceClientByName env client catalog region c w = (r, c', w')"
  shows "c' = c" and "calls w' = calls w" and "transports w' = transports w"
    and "\<And>sc. r = Inr sc \<Longrightarrow>
          \<exists>cl. deref w' (sc_ProviderClient sc) = Some cl \<and> pc_ProjectID cl = p"
  using assms
  by (auto simp: newServiceClientByName_def Let_def lookup_region_def deref_def
        split: if_splits option.splits)

lemma nsc_frame:
  assumes "newServiceClientByName env client catalog region c w = (r, c', w')"
  shows "c' = c\<lparr>RegionProjectIDMap := RegionProjectIDMap c'\<rparr>"
    and "transports w' = transports w"
    and "\<exists>extra. clients w' = clients w @ extra"
  using assms
  by (auto simp: newServiceClientByName_def Let_def
        split: if_splits option.splits prod.splits
        dest: loadUserProjects_frame)

lemma nsc_dom:
  assumes "newServiceClientByName env client catalog region c w = (r, c', w')"
  shows "dom (RegionProjectIDMap c) \<subseteq> dom (RegionProjectIDMap c')"
  using assms
  by (auto simp: newServiceClientByName_def Let_def
        split: if_splits option.splits prod.splits
        dest!: loadUserProjects_dom)

lemma nsc_le:
  assumes "newServiceClientByName env client catalog region c w = (r, c', w')"
    and "honours_name_filter env"
  shows "RegionProjectIDMap c \<subseteq>\<^sub>m RegionProjectIDMap c'"
  using assms
  by (auto simp: newServiceClientByName_def Let_def
        split: if_splits option.splits prod.splits
        dest: loadUserProjects_le)

lemma nsc_miss_query:
  assumes "RegionProjectIDMap c region = None"
    and "cat_Name catalog \<noteq> ''''" and "cat_Version catalog \<noteq> ''''"
    and "region = Region c \<or> (AccessKey c \<noteq> '''' \<and> SecretKey c \<noteq> '''')"
    and "deref w client = Some cl"
  shows "calls (snd (snd (newServiceClientByName env client catalog region c w))) =
           calls w @ [ListProjectsCall (IdentityEndpoint c @ ''/'') client
                        \<lparr>lo_DomainID = pc_DomainID cl, lo_Name = region\<rparr>]"
  using assms
  by (auto simp: newServiceClientByName_def loadUserProjects_def Let_def deref_def
        split: option.splits sum.splits if_splits)

lemma run_clients_dom:
  "run_clients env ops c w = (c', w') \<Longrightarrow>
   dom (RegionProjectIDMap c) \<subseteq> dom (RegionProjectIDMap c')"
proof (induction ops arbitrary: c w)
  case Nil
  then show ?case by simp
next
  case (Cons op ops)
  obtain srv region where op: "op = (srv, region)" by (cases op)
  obtain r c1 w1 where step: "NewServiceClient env srv region c w = (r, c1, w1)"
    by (cases "NewServiceClient env srv region c w")
  from step have "dom (RegionProjectIDMap c) \<subseteq> dom (RegionProjectIDMap c1)"
    unfolding NewServiceClient_def Let_def by (rule nsc_dom)
  moreover from Cons.prems op step have "run_clients env ops c1 w1 = (c', w')" by simp
  then have "dom (RegionProjectIDMap c1) \<subseteq> dom (RegionProjectIDMap c')" by (rule Cons.IH)
  ultimately show ?case by blast
qed

lemma run_clients_le:
  "run_clients env ops c w = (c', w') \<Longrightarrow> honours_name_filter env \<Longrightarrow>
   RegionProjectIDMap c \<subseteq>\<^sub>m RegionProjectIDMap c'"
proof (induction ops arbitrary: c w)
  case Nil
  then show ?case by simp
next
  case (Cons op ops)
  obtain srv region where op: "op = (srv, region)" by (cases op)
  obtain r c1 w1 where step: "NewServiceClient env srv region c w = (r, c1, w1)"
    by (cases "NewServiceClient env srv region c w")
  from step Cons.prems(2) have "RegionProjectIDMap c \<subseteq>\<^sub>m RegionProjectIDMap c1"
    unfolding NewServiceClient_def Let_def by (rule nsc_le)
  moreover from Cons.prems op step have "run_clients env ops c1 w1 = (c', w')" by simp
  then have "RegionProjectIDMap c1 \<subseteq>\<^sub>m RegionProjectIDMap c'"
    using Cons.prems(2) by (rule Cons.IH)
  ultimately show ?case by (rule map_le_trans)
qed

lemma demo_functiongraph:
  "newServiceClientByName demo_env (Some 0) (lookup_catalog demo_env ''fgsv2'') ''north''
     demo_config demo_world =
   (Inr \<lparr>sc_ProviderClient = Some 2, sc_Endpoint = ''https://functiongraph.north.example.com/'',
         sc_ResourceBase = ''https://functiongraph.north.example.com/v2/id-of-north/fgs/''\<rparr>,
    demo_config,
    demo_world\<lparr>clients := clients demo_world @
      [(clients demo_world ! 0)\<lparr>pc_AKSKAuthOptions :=
          demo_pao\<lparr>aksk_ProjectId := ''id-of-north'', aksk_Region := ''north''\<rparr>\<rparr>]\<rparr>)"
  by (simp add: client_defs demo_defs)

lemma deref_calls: "deref (w\<lparr>calls := x\<rparr>) p = deref w p"
  by (cases p) (simp_all add: deref_def)

lemma nsc_miss_fill:
  assumes "RegionProjectIDMap c region = None"
    and "cat_Name catalog \<noteq> ''''" and "cat_Version catalog \<noteq> ''''"
    and "region = Region c \<or> (AccessKey c \<noteq> '''' \<and> SecretKey c \<noteq> '''')"
    and "deref w client = Some cl"
    and "ListAllPages env (calls w) (IdentityEndpoint c @ ''/'')
           \<lparr>lo_DomainID = pc_DomainID cl, lo_Name = region\<rparr> = Inr pages"
    and "ExtractProjects env pages = Inr ps" and "ps \<noteq> []"
    and "newServiceClientByName env client catalog region c w = (r1, c1, w1)"
  shows "\<exists>sc. r1 = Inr sc"
    and "c1 = c\<lparr>RegionProjectIDMap := store_projects ps (RegionProjectIDMap c)\<rparr>"
    and "calls w1 = calls w @ [ListProjectsCall (IdentityEndpoint c @ ''/'') client
                                 \<lparr>lo_DomainID = pc_DomainID cl, lo_Name = region\<rparr>]"
proof -
  from assms(5,6,7,8)
  have load: "loadUserProjects env client region c w =
      (None, c\<lparr>RegionProjectIDMap := store_projects ps (RegionProjectIDMap c)\<rparr>,
       w\<lparr>calls := calls w @ [ListProjectsCall (IdentityEndpoint c @ ''/'') client
                                \<lparr>lo_DomainID = pc_DomainID cl, lo_Name = region\<rparr>]\<rparr>)"
    by (simp add: loadUserProjects_def Let_def)
  from assms(5) have "deref (w\<lparr>calls := calls w @ [ListProjectsCall (IdentityEndpoint c @ ''/'')
      client \<lparr>lo_DomainID = pc_DomainID cl, lo_Name = region\<rparr>]\<rparr>) client = Some cl"
    by (simp add: deref_calls)
  with assms(1,2,3,4,9) load
  show "\<exists>sc. r1 = Inr sc"
    and "c1 = c\<lparr>RegionProjectIDMap := store_projects ps (RegionProjectIDMap c)\<rparr>"
    and "calls w1 = calls w @ [ListProjectsCall (IdentityEndpoint c @ ''/'') client
                                 \<lparr>lo_DomainID = pc_DomainID cl, lo_Name = region\<rparr>]"
    by (auto simp: newServiceClientByName_def Let_def)
qed

lemma south_first_value:
  "south_first =
    (Inr \<lparr>sc_ProviderClient = Some 2, sc_Endpoint = ''https://ecs.south.example.com/'',
          sc_ResourceBase = ''https://ecs.south.example.com/v1/id-of-south/''\<rparr>,
     demo_config\<lparr>RegionProjectIDMap := [''north'' \<mapsto> ''id-of-north'', ''south'' \<mapsto> ''id-of-south'']\<rparr>,
     demo_world\<lparr>calls := calls demo_world @
         [ListProjectsCall ''https://iam.example/v3/'' (Some 0)
            \<lparr>lo_DomainID = ''domain-1'', lo_Name = ''south''\<rparr>],
       clients := clients demo_world @
         [(clients demo_world ! 0)\<lparr>pc_ProjectID := ''id-of-south'',
            pc_AKSKAuthOptions :=
              demo_pao\<lparr>aksk_ProjectId := ''id-of-south'', aksk_Region := ''south''\<rparr>\<rparr>]\<rparr>)"
  by (simp add: south_first_def client_defs demo_defs)

lemma deref_clients_eq: "clients w1 = clients w \<Longrightarrow> deref w1 p = deref w p"
  by (cases p) (simp_all add: deref_def)

lemma nsc_failure_keeps_config:
  assumes "newServiceClientByName env client catalog region c w = (Inl e, c', w')"
  shows "c' = c"
proof (cases "RegionProjectIDMap c region")
  case (Some p)
  from nsc_hit(1) [OF Some assms] show ?thesis .
next
  case None
  obtain err c1 w1 where load: "loadUserProjects env client region c w = (err, c1, w1)"
    by (cases "loadUserProjects env client region c w")
  show ?thesis
  proof (cases err)
    case (Some x)
    with load have "c1 = c" by (auto dest: loadUserProjects_frame(4))
    with assms None load Some show ?thesis
      by (auto simp: newServiceClientByName_def split: if_splits)
  next
    case ok: None
    from load ok obtain cl where cl: "deref w client = Some cl"
      by (auto simp: loadUserProjects_def split: option.splits)
    from load have same: "clients w1 = clients w" by (rule loadUserProjects_frame(2))
    from deref_clients_eq [OF same, of client] cl have "deref w1 client = Some cl" by simp
    with assms None load ok show ?thesis
      by (auto simp: newServiceClientByName_def Let_def split: if_splits)
  qed
qed

lemma unfiltered_setup:
  "configureProvider unfiltered_env demo_data ''0.12'' empty_world = (Inr demo_config, demo_world)"
  by (simp add: unfiltered_env_def setup_defs demo_defs)

lemma genClients_frame:
  assumes "genClients env c pao dao w = (e, c', w')"
  shows "\<exists>h d. c' = c\<lparr>HwClient := h, DomainClient := d\<rparr>"
proof (cases "genClient env c pao w")
  case (Pair r1 w1)
  show ?thesis
  proof (cases r1)
    case (Inl err)
    with Pair assms have "c' = c" by (simp add: genClients_def)
    then have "c' = c\<lparr>HwClient := HwClient c, DomainClient := DomainClient c\<rparr>" by simp
    then show ?thesis by blast
  next
    case (Inr a)
    obtain r2 w2 where second: "genClient env (c\<lparr>HwClient := Some a\<rparr>) dao w1 = (r2, w2)"
      by (cases "genClient env (c\<lparr>HwClient := Some a\<rparr>) dao w1")
    show ?thesis
    proof (cases r2)
      case (Inl err)
      with Pair Inr second assms have "c' = c\<lparr>HwClient := Some a\<rparr>"
        by (simp add: genClients_def)
      then have "c' = c\<lparr>HwClient := Some a, DomainClient := DomainClient c\<rparr>" by simp
      then show ?thesis by blast
    next
      case (Inr b)
      with Pair \<open>r1 = Inr a\<close> second assms
      have "c' = c\<lparr>HwClient := Some a, DomainClient := Some b\<rparr>"
        by (simp add: genClients_def)
      then show ?thesis by blast
    qed
  qed
qed

lemma newS3Session_frame:
  assumes "newS3Session env dbg c = (e, c')"
  shows "\<exists>s. c' = c\<lparr>s3sess := s\<rparr>"
proof -
  have same: "c = c\<lparr>s3sess := s3sess c\<rparr>" by simp
  from assms have "c' = c \<or> c' = c\<lparr>s3sess := None\<rparr> \<or> (\<exists>x. c' = c\<lparr>s3sess := Some x\<rparr>)"
    by (auto simp: newS3Session_def split: if_splits sum.splits prod.splits)
  with same show ?thesis by metis
qed

lemma finish_setup_frame:
  assumes "finish_setup env (e0, c0, w0) = (e, c', w')"
  shows "\<exists>s. c' = c0\<lparr>s3sess := s\<rparr>"
proof (cases e0)
  case (Some x)
  with assms have "c' = c0" by (simp add: finish_setup_def)
  then have "c' = c0\<lparr>s3sess := s3sess c0\<rparr>" by simp
  then show ?thesis by blast
next
  case None
  obtain e1 c1 where s3: "newS3Session env (IsDebugOrHigher env) c0 = (e1, c1)"
    by (cases "newS3Session env (IsDebugOrHigher env) c0")
  with None assms have "c' = c1" by (simp add: finish_setup_def)
  with newS3Session_frame [OF s3] show ?thesis by simp
qed

lemma built_frame:
  assumes "(if Token c \<noteq> '''' then buildClientByToken env c w
        else if AccessKey c \<noteq> '''' \<and> SecretKey c \<noteq> '''' then buildClientByAKSK env c w
        else if Password c \<noteq> ''''
        then (if Username c = '''' \<and> UserID c = ''''
              then (Some password_needs_user, c, w)
              else buildClientByPassword env c w)
        else (Some no_auth_method, c, w)) = (e0, c0, w0)"
  shows "\<exists>h d. c0 = c\<lparr>HwClient := h, DomainClient := d\<rparr>"
proof -
  have same: "c = c\<lparr>HwClient := HwClient c, DomainClient := DomainClient c\<rparr>" by simp
  from assms have "c0 = c \<or> (\<exists>pao dao. genClients env c pao dao w = (e0, c0, w0))"
    by (auto simp: buildClientByToken_def buildClientByAKSK_def buildClientByPassword_def
          split: if_splits)
  then show ?thesis
  proof
    assume "c0 = c"
    with same show ?thesis by metis
  next
    assume "\<exists>pao dao. genClients env c pao dao w = (e0, c0, w0)"
    then show ?thesis using genClients_frame by blast
  qed
qed

lemma LoadAndValidate_frame:
  assumes "LoadAndValidate env c w = (e, c', w')"
  shows "\<exists>h d s. c' = c\<lparr>HwClient := h, DomainClient := d, s3sess := s\<rparr>"
proof (cases "MaxRetries c < 0")
  case True
  with assms have "c' = c" by (simp add: LoadAndValidate_def)
  then have "c' = c\<lparr>HwClient := HwClient c, DomainClient := DomainClient c, s3sess := s3sess c\<rparr>"
    by simp
  then show ?thesis by blast
next
  case False
  define built where "built =
       (if Token c \<noteq> '''' then buildClientByToken env c w
        else if AccessKey c \<noteq> '''' \<and> SecretKey c \<noteq> '''' then buildClientByAKSK env c w
        else if Password c \<noteq> ''''
        then (if Username c = '''' \<and> UserID c = ''''
              then (Some password_needs_user, c, w)
              else buildClientByPassword env c w)
        else (Some no_auth_method, c, w))"
  obtain e0 c0 w0 where built: "built = (e0, c0, w0)" by (cases built)
  from built_frame [OF built [unfolded built_def]]
  obtain h d where c0: "c0 = c\<lparr>HwClient := h, DomainClient := d\<rparr>" by blast
  from assms False built have "finish_setup env (e0, c0, w0) = (e, c', w')"
    by (simp add: LoadAndValidate_def built_def)
  from finish_setup_frame [OF this] obtain s where "c' = c0\<lparr>s3sess := s\<rparr>" by blast
  with c0 have "c' = c\<lparr>HwClient := h, DomainClient := d, s3sess := s\<rparr>" by simp
  then show ?thesis by blast
qed

lemma token_setup:
  "configureProvider demo_env (demo_data\<lparr>d_token := ''tok''\<rparr>) ''0.12'' empty_world =
     (Inr token_config, token_world)"
  by (simp add: setup_defs demo_defs token_config_def token_world_def)

lemma token_only_setup:
  "configureProvider demo_env
     (demo_data\<lparr>d_token := ''tok'', d_access_key := '''', d_secret_key := ''''\<rparr>) ''0.12''
     empty_world =
   (Inr token_only_config, token_world)"
  by (simp add: setup_defs demo_defs token_config_def token_only_config_def token_world_def)

lemma nsc_success_shape:
  assumes "newServiceClientByName env client catalog region c w = (Inr sc, c', w')"
  shows "\<exists>base w1. deref w client = Some base \<and> clients w1 = clients w \<and>
     transports w1 = transports w \<and>
     w' = w1\<lparr>clients := clients w1 @
            [base\<lparr>pc_ProjectID := lookup_region (RegionProjectIDMap c') region,
                 pc_AKSKAuthOptions := (pc_AKSKAuthOptions base)
                   \<lparr>aksk_ProjectId := lookup_region (RegionProjectIDMap c') region,
                    aksk_Region := region\<rparr>\<rparr>]\<rparr> \<and>
     sc_ProviderClient sc = Some (length (clients w))"
proof -
  define mid where "mid = (case RegionProjectIDMap c region of
       Some p \<Rightarrow> (None, c, w) | None \<Rightarrow> loadUserProjects env client region c w)"
  obtain e c1 w1 where mid: "mid = (e, c1, w1)" by (cases mid)
  have frame: "clients w1 = clients w \<and> transports w1 = transports w"
  proof (cases "RegionProjectIDMap c region")
    case None
    with mid have "loadUserProjects env client region c w = (e, c1, w1)" by (simp add: mid_def)
    from loadUserProjects_frame(2,3) [OF this] show ?thesis by simp
  next
    case (Some p)
    with mid show ?thesis by (simp add: mid_def)
  qed
  from assms mid have ok: "e = None"
    by (auto simp: newServiceClientByName_def mid_def [symmetric] split: if_splits option.splits)
  show ?thesis
  proof (cases "deref w1 client")
    case None
    with assms mid ok show ?thesis
      by (simp add: newServiceClientByName_def mid_def [symmetric] split: if_splits)
  next
    case (Some base)
    with assms mid ok have c': "c' = c1"
      and w': "w' = w1\<lparr>clients := clients w1 @
            [base\<lparr>pc_ProjectID := lookup_region (RegionProjectIDMap c1) region,
                 pc_AKSKAuthOptions := (pc_AKSKAuthOptions base)
                   \<lparr>aksk_ProjectId := lookup_region (RegionProjectIDMap c1) region,
                    aksk_Region := region\<rparr>\<rparr>]\<rparr>"
      and sc: "sc_ProviderClient sc = Some (length (clients w1))"
      by (auto simp: newServiceClientByName_def mid_def [symmetric] Let_def split: if_splits)
    from frame have "deref w1 client = deref w client" by (simp add: deref_clients_eq [of w1 w])
    with Some have "deref w client = Some base" by simp
    with frame c' w' sc show ?thesis by auto
  qed
qed

lemma nsc_clients_kept:
  assumes "newServiceClientByName env client catalog region c w = (r, c', w')"
  shows "HwClient c' = HwClient c \<and> DomainClient c' = DomainClient c"
proof -
  note eq = nsc_frame(1) [OF assms]
  from arg_cong [OF eq, of HwClient] arg_cong [OF eq, of DomainClient] show ?thesis by simp
qed

lemma north_client_value:
  "NewServiceClient demo_env ''ecs'' ''north'' demo_config demo_world =
    (Inr \<lparr>sc_ProviderClient = Some 2, sc_Endpoint = ''https://ecs.north.example.com/'',
          sc_ResourceBase = ''https://ecs.north.example.com/v1/id-of-north/''\<rparr>,
     demo_config,
     demo_world\<lparr>clients := clients demo_world @
       [(clients demo_world ! 0)\<lparr>pc_AKSKAuthOptions :=
           demo_pao\<lparr>aksk_ProjectId := ''id-of-north'', aksk_Region := ''north''\<rparr>\<rparr>]\<rparr>)"
  by (simp add: client_defs demo_defs)

lemma genClient_ignores_HwClient:
  "genClient env (c\<lparr>HwClient := x\<rparr>) ao w = genClient env c ao w"
  by (simp add: genClient_def generateTLSConfig_def read_client_pair_def Let_def
        cong: sum.case_cong)

lemma genClient_calls:
  assumes "genClient env c ao w = (r, w')"
  shows "calls w' = calls w \<or> calls w' = calls w @ [AuthCall ao]"
  using assms
  by (auto simp: genClient_def Let_def split: sum.splits)

lemma genClients_calls:
  assumes "genClients env c pao dao w = (e, c', w')"
  shows "\<exists>extra. calls w' = calls w @ extra \<and> set extra \<subseteq> {AuthCall pao, AuthCall dao}"
proof -
  obtain r1 w1 where first: "genClient env c pao w = (r1, w1)"
    by (cases "genClient env c pao w")
  from genClient_calls [OF first]
  have one: "\<exists>xs. calls w1 = calls w @ xs \<and> set xs \<subseteq> {AuthCall pao, AuthCall dao}"
  proof
    assume "calls w1 = calls w"
    then have "calls w1 = calls w @ [] \<and> set [] \<subseteq> {AuthCall pao, AuthCall dao}" by simp
    then show ?thesis by blast
  next
    assume "calls w1 = calls w @ [AuthCall pao]"
    then have "calls w1 = calls w @ [AuthCall pao] \<and>
        set [AuthCall pao] \<subseteq> {AuthCall pao, AuthCall dao}" by simp
    then show ?thesis by blast
  qed
  then obtain xs where xs: "calls w1 = calls w @ xs" "set xs \<subseteq> {AuthCall pao, AuthCall dao}"
    by blast
  show ?thesis
  proof (cases r1)
    case (Inl err)
    with first assms have "w' = w1" by (simp add: genClients_def)
    with xs show ?thesis by blast
  next
    case (Inr a)
    obtain r2 w2 where second: "genClient env (c\<lparr>HwClient := Some a\<rparr>) dao w1 = (r2, w2)"
      by (cases "genClient env (c\<lparr>HwClient := Some a\<rparr>) dao w1")
    from first Inr second assms have w': "w' = w2"
      by (cases r2) (simp_all add: genClients_def)
    from genClient_calls [OF second]
    have "\<exists>ys. calls w2 = calls w1 @ ys \<and> set ys \<subseteq> {AuthCall pao, AuthCall dao}"
    proof
      assume "calls w2 = calls w1"
      then have "calls w2 = calls w1 @ [] \<and> set [] \<subseteq> {AuthCall pao, AuthCall dao}" by simp
      then show ?thesis by blast
    next
      assume "calls w2 = calls w1 @ [AuthCall dao]"
      then have "calls w2 = calls w1 @ [AuthCall dao] \<and>
          set [AuthCall dao] \<subseteq> {AuthCall pao, AuthCall dao}" by simp
      then show ?thesis by blast
    qed
    then obtain ys where ys: "calls w2 = calls w1 @ ys" "set ys \<subseteq> {AuthCall pao, AuthCall dao}"
      by blast
    from xs ys w' have "calls w' = calls w @ (xs @ ys) \<and>
        set (xs @ ys) \<subseteq> {AuthCall pao, AuthCall dao}" by simp
    then show ?thesis by blast
  qed
qed

lemma genClients_success:
  assumes "genClients env c pao dao w = (None, c', w')"
  shows "HwClient c' \<noteq> None \<and> DomainClient c' \<noteq> None"
  using assms
  by (auto simp: genClients_def Let_def split: prod.splits sum.splits)

lemma genClients_outcomes:
  "(\<forall>e w1. genClient env c pao w = (Inl e, w1) \<longrightarrow>
      genClients env c pao dao w = (Some e, c, w1)) \<and>
   (\<forall>a w1 e w2. genClient env c pao w = (Inr a, w1) \<and> genClient env c dao w1 = (Inl e, w2) \<longrightarrow>
      genClients env c pao dao w = (Some e, c\<lparr>HwClient := Some a\<rparr>, w2)) \<and>
   (\<forall>a w1 b w2. genClient env c pao w = (Inr a, w1) \<and> genClient env c dao w1 = (Inr b, w2) \<longrightarrow>
      genClients env c pao dao w = (None, c\<lparr>HwClient := Some a, DomainClient := Some b\<rparr>, w2))"
  by (simp add: genClients_def genClient_ignores_HwClient)

lemma finish_setup_world:
  "finish_setup env (e0, c0, w0) = (e, c', w') \<Longrightarrow> w' = w0"
  by (auto simp: finish_setup_def split: option.splits prod.splits)

lemma finish_setup_success:
  assumes "finish_setup env (e0, c0, w0) = (None, c', w')"
  shows "e0 = None \<and> HwClient c' = HwClient c0 \<and> DomainClient c' = DomainClient c0"
proof -
  from assms have e0: "e0 = None" by (cases e0) (simp_all add: finish_setup_def)
  from finish_setup_frame [OF assms] obtain s where "c' = c0\<lparr>s3sess := s\<rparr>" by blast
  then have "HwClient c' = HwClient c0 \<and> DomainClient c' = DomainClient c0" by simp
  with e0 show ?thesis by blast
qed

lemma LoadAndValidate_success:
  assumes "LoadAndValidate env c w = (None, c', w')"
  shows "HwClient c' \<noteq> None \<and> DomainClient c' \<noteq> None"
proof -
  from assms have pos: "\<not> MaxRetries c < 0"
    by (auto simp: LoadAndValidate_def split: if_splits)
  define built where "built =
       (if Token c \<noteq> '''' then buildClientByToken env c w
        else if AccessKey c \<noteq> '''' \<and> SecretKey c \<noteq> '''' then buildClientByAKSK env c w
        else if Password c \<noteq> ''''
        then (if Username c = '''' \<and> UserID c = ''''
              then (Some password_needs_user, c, w)
              else buildClientByPassword env c w)
        else (Some no_auth_method, c, w))"
  obtain e0 c0 w0 where built: "built = (e0, c0, w0)" by (cases built)
  from assms pos built have fin: "finish_setup env (e0, c0, w0) = (None, c', w')"
    by (simp add: LoadAndValidate_def built_def)
  note ok = finish_setup_success [OF fin]
  from built ok have "\<exists>pao dao. genClients env c pao dao w = (None, c0, w0)"
    unfolding built_def
    by (auto simp: buildClientByToken_def buildClientByAKSK_def buildClientByPassword_def
          split: if_splits)
  then have "HwClient c0 \<noteq> None \<and> DomainClient c0 \<noteq> None"
    using genClients_success by blast
  with ok show ?thesis by simp
qed

lemma finish_setup_error: "finish_setup env (Some err, c1, w1) = (Some err, c1, w1)"
  by (simp add: finish_setup_def)

section \<open>The claims\<close>

text \<open>
  C1. \<open>genClients\<close> returns the error of either construction. When the project-scoped client
  cannot be built, it returns that error and sets neither client. When the project-scoped
  client is built and the domain-scoped one is not, it sets \<open>HwClient\<close>, leaves \<open>DomainClient\<close>
  as it was and returns the error of the domain scope. Only when both are built does it
  return no error, with both clients set. An error of \<open>genClients\<close> for the chosen strategy
  is the result of \<open>LoadAndValidate\<close>, and an error of \<open>LoadAndValidate\<close> is the result of
  \<open>configureProvider\<close>. Hence after a \<open>LoadAndValidate\<close> without error both clients are there.
\<close>

theorem C1_domain_failure_is_returned:
  "(\<forall>e w1. genClient env c pao w = (Inl e, w1) \<longrightarrow>
      genClients env c pao dao w = (Some e, c, w1)) \<and>
   (\<forall>a w1 e w2. genClient env c pao w = (Inr a, w1) \<and> genClient env c dao w1 = (Inl e, w2) \<longrightarrow>
      genClients env c pao dao w = (Some e, c\<lparr>HwClient := Some a\<rparr>, w2)) \<and>
   (\<forall>a w1 b w2. genClient env c pao w = (Inr a, w1) \<and> genClient env c dao w1 = (Inr b, w2) \<longrightarrow>
      genClients env c pao dao w = (None, c\<lparr>HwClient := Some a, DomainClient := Some b\<rparr>, w2)) \<and>
   (\<forall>err c1 w1. 0 \<le> MaxRetries c \<and>
      (Token c \<noteq> '''' \<and>
         genClients env c (AO (token_pao c)) (AO (token_dao c)) w = (Some err, c1, w1) \<or>
       Token c = '''' \<and> AccessKey c \<noteq> '''' \<and> SecretKey c \<noteq> '''' \<and>
         genClients env c (AKSK (aksk_pao c)) (AKSK (aksk_dao c)) w = (Some err, c1, w1) \<or>
       Token c = '''' \<and> (AccessKey c = '''' \<or> SecretKey c = '''') \<and> Password c \<noteq> '''' \<and>
         (Username c \<noteq> '''' \<or> UserID c \<noteq> '''') \<and>
         genClients env c (AO (password_pao c)) (AO (password_dao c)) w = (Some err, c1, w1)) \<longrightarrow>
      LoadAndValidate env c w = (Some err, c1, w1)) \<and>
   (\<forall>d v err c1 w1. LoadAndValidate env (initial_config d v) w = (Some err, c1, w1) \<longrightarrow>
      configureProvider env d v w = (Inl err, w1)) \<and>
   (\<forall>c' w'. LoadAndValidate env c w = (None, c', w') \<longrightarrow>
      HwClient c' \<noteq> None \<and> DomainClient c' \<noteq> None)"
proof -
  have passed: "LoadAndValidate env c w = (Some err, c1, w1)"
    if "0 \<le> MaxRetries c \<and>
      (Token c \<noteq> '''' \<and>
         genClients env c (AO (token_pao c)) (AO (token_dao c)) w = (Some err, c1, w1) \<or>
       Token c = '''' \<and> AccessKey c \<noteq> '''' \<and> SecretKey c \<noteq> '''' \<and>
         genClients env c (AKSK (aksk_pao c)) (AKSK (aksk_dao c)) w = (Some err, c1, w1) \<or>
       Token c = '''' \<and> (AccessKey c = '''' \<or> SecretKey c = '''') \<and> Password c \<noteq> '''' \<and>
         (Username c \<noteq> '''' \<or> UserID c \<noteq> '''') \<and>
         genClients env c (AO (password_pao c)) (AO (password_dao c)) w = (Some err, c1, w1))"
    for err c1 w1
    using that
    by (auto simp: LoadAndValidate_def buildClientByToken_def buildClientByAKSK_def
          buildClientByPassword_def finish_setup_error)
  have outer: "configureProvider env d v w = (Inl err, w1)"
    if "LoadAndValidate env (initial_config d v) w = (Some err, c1, w1)" for d v err c1 w1
    using that by (simp add: configureProvider_def)
  from genClients_outcomes [of env c pao w dao] passed outer LoadAndValidate_success [of env c w]
  show ?thesis by blast
qed

theorem C1_domain_failure_is_returned_witness:
  "fst (genClient strict_env (initial_config demo_data ''0.12'')
          (AKSK (aksk_pao (initial_config demo_data ''0.12''))) empty_world) = Inr 0 \<and>
   fst (genClient strict_env (initial_config demo_data ''0.12'')
          (AKSK (aksk_dao (initial_config demo_data ''0.12'')))
          (snd (genClient strict_env (initial_config demo_data ''0.12'')
                  (AKSK (aksk_pao (initial_config demo_data ''0.12''))) empty_world))) =
     Inl (Errorf ''domain scope refused'') \<and>
   genClients strict_env (initial_config demo_data ''0.12'')
     (AKSK (aksk_pao (initial_config demo_data ''0.12'')))
     (AKSK (aksk_dao (initial_config demo_data ''0.12''))) empty_world =
     (Some (Errorf ''domain scope refused''),
      (initial_config demo_data ''0.12'')\<lparr>HwClient := Some 0\<rparr>,
      snd (genClient strict_env (initial_config demo_data ''0.12'')
          (AKSK (aksk_dao (initial_config demo_data ''0.12'')))
          (snd (genClient strict_env (initial_config demo_data ''0.12'')
                  (AKSK (aksk_pao (initial_config demo_data ''0.12''))) empty_world))))"
proof -
  define c0 where "c0 = initial_config demo_data ''0.12''"
  define w1 where "w1 = snd (genClient strict_env c0 (AKSK (aksk_pao c0)) empty_world)"
  define w2 where "w2 = snd (genClient strict_env c0 (AKSK (aksk_dao c0)) w1)"
  have p: "fst (genClient strict_env c0 (AKSK (aksk_pao c0)) empty_world) = Inr 0"
    by (simp add: c0_def strict_env_def setup_defs demo_defs)
  have d: "fst (genClient strict_env c0 (AKSK (aksk_dao c0)) w1) =
      Inl (Errorf ''domain scope refused'')"
    by (simp add: w1_def c0_def strict_env_def setup_defs demo_defs)
  from p have p': "genClient strict_env c0 (AKSK (aksk_pao c0)) empty_world = (Inr 0, w1)"
    by (simp add: w1_def prod_eq_iff)
  from d have d': "genClient strict_env c0 (AKSK (aksk_dao c0)) w1 =
      (Inl (Errorf ''domain scope refused''), w2)"
    by (simp add: w2_def prod_eq_iff)
  from C1_domain_failure_is_returned
         [of strict_env c0 "AKSK (aksk_pao c0)" empty_world "AKSK (aksk_dao c0)",
          THEN conjunct2, THEN conjunct1, rule_format, OF conjI, OF p' d']
  have "genClients strict_env c0 (AKSK (aksk_pao c0)) (AKSK (aksk_dao c0)) empty_world =
      (Some (Errorf ''domain scope refused''), c0\<lparr>HwClient := Some 0\<rparr>, w2)" .
  with p d show ?thesis unfolding w2_def w1_def c0_def by blast
qed

theorem C1_domain_failure_is_returned_counterexample:
  "fst (genClient strict_env (initial_config demo_data ''0.12'')
          (AKSK (aksk_pao (initial_config demo_data ''0.12''))) empty_world) = Inr 0 \<and>
   fst (genClient strict_env (initial_config demo_data ''0.12'')
          (AKSK (aksk_dao (initial_config demo_data ''0.12'')))
          (snd (genClient strict_env (initial_config demo_data ''0.12'')
                  (AKSK (aksk_pao (initial_config demo_data ''0.12''))) empty_world))) =
     Inl (Errorf ''domain scope refused'') \<and>
   fst (genClients strict_env (initial_config demo_data ''0.12'')
          (AKSK (aksk_pao (initial_config demo_data ''0.12'')))
          (AKSK (aksk_dao (initial_config demo_data ''0.12''))) empty_world) =
     Some (Errorf ''domain scope refused'') \<and>
   fst (LoadAndValidate strict_env (initial_config demo_data ''0.12'') empty_world) =
     Some (Errorf ''domain scope refused'') \<and>
   fst (configureProvider strict_env demo_data ''0.12'' empty_world) =
     Inl (Errorf ''domain scope refused'')"
  by (simp add: strict_env_def setup_defs demo_defs)

text \<open>
  C2. For a configuration whose \<open>MaxRetries\<close> is not negative, \<open>LoadAndValidate\<close> takes one
  strategy in this order. With a token it runs \<open>buildClientByToken\<close>; otherwise with both
  keys it runs \<open>buildClientByAKSK\<close>; otherwise with a password and a user name or user ID it
  runs \<open>buildClientByPassword\<close>; each time followed by the end of the setup, and the requests
  it sends are authentications with the options of that strategy only. With a password but
  neither user name nor user ID it fails with the validation error, and with none of the
  three it fails with "Must config token or aksk or username password to be authorized";
  in these two cases nothing is attempted: the configuration and the store are as before.
\<close>

theorem C2_strategy_priority:
  assumes "0 \<le> MaxRetries c"
  shows
    "(Token c \<noteq> '''' \<longrightarrow>
        LoadAndValidate env c w = finish_setup env (buildClientByToken env c w) \<and>
        (\<exists>extra. calls (snd (snd (LoadAndValidate env c w))) = calls w @ extra \<and>
           set extra \<subseteq> {AuthCall (AO (token_pao c)), AuthCall (AO (token_dao c))})) \<and>
     (Token c = '''' \<and> AccessKey c \<noteq> '''' \<and> SecretKey c \<noteq> '''' \<longrightarrow>
        uses_key_pair c \<and>
        LoadAndValidate env c w = finish_setup env (buildClientByAKSK env c w) \<and>
        (\<exists>extra. calls (snd (snd (LoadAndValidate env c w))) = calls w @ extra \<and>
           set extra \<subseteq> {AuthCall (AKSK (aksk_pao c)), AuthCall (AKSK (aksk_dao c))})) \<and>
     (Token c = '''' \<and> (AccessKey c = '''' \<or> SecretKey c = '''') \<and> Password c \<noteq> '''' \<and>
      (Username c \<noteq> '''' \<or> UserID c \<noteq> '''') \<longrightarrow>
        LoadAndValidate env c w = finish_setup env (buildClientByPassword env c w) \<and>
        (\<exists>extra. calls (snd (snd (LoadAndValidate env c w))) = calls w @ extra \<and>
           set extra \<subseteq> {AuthCall (AO (password_pao c)), AuthCall (AO (password_dao c))})) \<and>
     (Token c = '''' \<and> (AccessKey c = '''' \<or> SecretKey c = '''') \<and> Password c \<noteq> '''' \<and>
      Username c = '''' \<and> UserID c = '''' \<longrightarrow>
        LoadAndValidate env c w = (Some password_needs_user, c, w)) \<and>
     (Token c = '''' \<and> (AccessKey c = '''' \<or> SecretKey c = '''') \<and> Password c = '''' \<longrightarrow>
        LoadAndValidate env c w = (Some no_auth_method, c, w))"
proof -
  have sent: "\<exists>extra. calls (snd (snd (finish_setup env (genClients env c pao dao w)))) =
      calls w @ extra \<and> set extra \<subseteq> {AuthCall pao, AuthCall dao}" for pao dao
  proof -
    obtain e0 c0 w0 where g: "genClients env c pao dao w = (e0, c0, w0)"
      by (cases "genClients env c pao dao w")
    obtain e1 c1 w1 where f: "finish_setup env (e0, c0, w0) = (e1, c1, w1)"
      by (cases "finish_setup env (e0, c0, w0)")
    from finish_setup_world [OF f] have "w1 = w0" .
    with g f genClients_calls [OF g] show ?thesis by simp
  qed
  from assms have pos: "\<not> MaxRetries c < 0" by simp
  have token: "LoadAndValidate env c w = finish_setup env (buildClientByToken env c w)"
    if "Token c \<noteq> ''''"
    using that pos by (simp add: LoadAndValidate_def)
  have aksk: "LoadAndValidate env c w = finish_setup env (buildClientByAKSK env c w)"
    if "Token c = '''' \<and> AccessKey c \<noteq> '''' \<and> SecretKey c \<noteq> ''''"
    using that pos by (simp add: LoadAndValidate_def)
  have password: "LoadAndValidate env c w = finish_setup env (buildClientByPassword env c w)"
    if "Token c = '''' \<and> (AccessKey c = '''' \<or> SecretKey c = '''') \<and> Password c \<noteq> '''' \<and>
      (Username c \<noteq> '''' \<or> UserID c \<noteq> '''')"
    using that pos by (auto simp: LoadAndValidate_def)
  have needs: "LoadAndValidate env c w = (Some password_needs_user, c, w)"
    if "Token c = '''' \<and> (AccessKey c = '''' \<or> SecretKey c = '''') \<and> Password c \<noteq> '''' \<and>
      Username c = '''' \<and> UserID c = ''''"
    using that pos by (auto simp: LoadAndValidate_def finish_setup_def)
  have none: "LoadAndValidate env c w = (Some no_auth_method, c, w)"
    if "Token c = '''' \<and> (AccessKey c = '''' \<or> SecretKey c = '''') \<and> Password c = ''''"
    using that pos by (auto simp: LoadAndValidate_def finish_setup_def)
  show ?thesis
  proof (intro conjI impI)
    assume a: "Token c \<noteq> ''''"
    from token [OF a]
    show "LoadAndValidate env c w = finish_setup env (buildClientByToken env c w)" .
    from token [OF a] sent [of "AO (token_pao c)" "AO (token_dao c)"]
    show "\<exists>extra. calls (snd (snd (LoadAndValidate env c w))) = calls w @ extra \<and>
           set extra \<subseteq> {AuthCall (AO (token_pao c)), AuthCall (AO (token_dao c))}"
      by (simp add: buildClientByToken_def)
  next
    assume a: "Token c = '''' \<and> AccessKey c \<noteq> '''' \<and> SecretKey c \<noteq> ''''"
    then show "uses_key_pair c" by (simp add: uses_key_pair_def)
    from aksk [OF a]
    show "LoadAndValidate env c w = finish_setup env (buildClientByAKSK env c w)" .
    from aksk [OF a] sent [of "AKSK (aksk_pao c)" "AKSK (aksk_dao c)"]
    show "\<exists>extra. calls (snd (snd (LoadAndValidate env c w))) = calls w @ extra \<and>
           set extra \<subseteq> {AuthCall (AKSK (aksk_pao c)), AuthCall (AKSK (aksk_dao c))}"
      by (simp add: buildClientByAKSK_def)
  next
    assume a: "Token c = '''' \<and> (AccessKey c = '''' \<or> SecretKey c = '''') \<and> Password c \<noteq> '''' \<and>
      (Username c \<noteq> '''' \<or> UserID c \<noteq> '''')"
    from password [OF a]
    show "LoadAndValidate env c w = finish_setup env (buildClientByPassword env c w)" .
    from password [OF a] sent [of "AO (password_pao c)" "AO (password_dao c)"]
    show "\<exists>extra. calls (snd (snd (LoadAndValidate env c w))) = calls w @ extra \<and>
           set extra \<subseteq> {AuthCall (AO (password_pao c)), AuthCall (AO (password_dao c))}"
      by (simp add: buildClientByPassword_def)
  next
    assume "Token c = '''' \<and> (AccessKey c = '''' \<or> SecretKey c = '''') \<and> Password c \<noteq> '''' \<and>
      Username c = '''' \<and> UserID c = ''''"
    from needs [OF this] show "LoadAndValidate env c w = (Some password_needs_user, c, w)" .
  next
    assume "Token c = '''' \<and> (AccessKey c = '''' \<or> SecretKey c = '''') \<and> Password c = ''''"
    from none [OF this] show "LoadAndValidate env c w = (Some no_auth_method, c, w)" .
  qed
qed

theorem C2_strategy_priority_witness:
  "0 \<le> MaxRetries (initial_config demo_data ''0.12'') \<and>
   LoadAndValidate demo_env (initial_config demo_data ''0.12'') empty_world =
     finish_setup demo_env (buildClientByAKSK demo_env (initial_config demo_data ''0.12'')
       empty_world) \<and>
   LoadAndValidate demo_env (initial_config (demo_data\<lparr>d_token := ''tok''\<rparr>) ''0.12'') empty_world =
     finish_setup demo_env (buildClientByToken demo_env
       (initial_config (demo_data\<lparr>d_token := ''tok''\<rparr>) ''0.12'') empty_world) \<and>
   LoadAndValidate demo_env
     (initial_config (demo_data\<lparr>d_access_key := '''', d_password := ''pw''\<rparr>) ''0.12'') empty_world =
     (Some password_needs_user,
      initial_config (demo_data\<lparr>d_access_key := '''', d_password := ''pw''\<rparr>) ''0.12'',
      empty_world) \<and>
   LoadAndValidate demo_env (initial_config (demo_data\<lparr>d_access_key := ''''\<rparr>) ''0.12'')
     empty_world =
     (Some no_auth_method, initial_config (demo_data\<lparr>d_access_key := ''''\<rparr>) ''0.12'',
      empty_world)"
proof -
  have pos: "0 \<le> MaxRetries (initial_config demo_data ''0.12'')"
    and pos_token: "0 \<le> MaxRetries (initial_config (demo_data\<lparr>d_token := ''tok''\<rparr>) ''0.12'')"
    and pos_pw: "0 \<le> MaxRetries
      (initial_config (demo_data\<lparr>d_access_key := '''', d_password := ''pw''\<rparr>) ''0.12'')"
    and pos_none: "0 \<le> MaxRetries (initial_config (demo_data\<lparr>d_access_key := ''''\<rparr>) ''0.12'')"
    by (simp_all add: initial_config_def demo_data_def)
  have keys: "Token (initial_config demo_data ''0.12'') = '''' \<and>
      AccessKey (initial_config demo_data ''0.12'') \<noteq> '''' \<and>
      SecretKey (initial_config demo_data ''0.12'') \<noteq> ''''"
    by (simp add: initial_config_def demo_data_def)
  have tok: "Token (initial_config (demo_data\<lparr>d_token := ''tok''\<rparr>) ''0.12'') \<noteq> ''''"
    by (simp add: initial_config_def demo_data_def)
  have pw: "Token (initial_config (demo_data\<lparr>d_access_key := '''', d_password := ''pw''\<rparr>) ''0.12'') = '''' \<and>
      (AccessKey (initial_config (demo_data\<lparr>d_access_key := '''', d_password := ''pw''\<rparr>) ''0.12'') = '''' \<or>
       SecretKey (initial_config (demo_data\<lparr>d_access_key := '''', d_password := ''pw''\<rparr>) ''0.12'') = '''') \<and>
      Password (initial_config (demo_data\<lparr>d_access_key := '''', d_password := ''pw''\<rparr>) ''0.12'') \<noteq> '''' \<and>
      Username (initial_config (demo_data\<lparr>d_access_key := '''', d_password := ''pw''\<rparr>) ''0.12'') = '''' \<and>
      UserID (initial_config (demo_data\<lparr>d_access_key := '''', d_password := ''pw''\<rparr>) ''0.12'') = ''''"
    by (simp add: initial_config_def demo_data_def)
  have unset: "Token (initial_config (demo_data\<lparr>d_access_key := ''''\<rparr>) ''0.12'') = '''' \<and>
      (AccessKey (initial_config (demo_data\<lparr>d_access_key := ''''\<rparr>) ''0.12'') = '''' \<or>
       SecretKey (initial_config (demo_data\<lparr>d_access_key := ''''\<rparr>) ''0.12'') = '''') \<and>
      Password (initial_config (demo_data\<lparr>d_access_key := ''''\<rparr>) ''0.12'') = ''''"
    by (simp add: initial_config_def demo_data_def)
  note a = C2_strategy_priority [OF pos, of demo_env empty_world,
      THEN conjunct2, THEN conjunct1, rule_format, OF keys, THEN conjunct2, THEN conjunct1]
  note b = C2_strategy_priority [OF pos_token, of demo_env empty_world,
      THEN conjunct1, rule_format, OF tok, THEN conjunct1]
  note c = C2_strategy_priority [OF pos_pw, of demo_env empty_world,
      THEN conjunct2, THEN conjunct2, THEN conjunct2, THEN conjunct1, rule_format, OF pw]
  note d = C2_strategy_priority [OF pos_none, of demo_env empty_world,
      THEN conjunct2, THEN conjunct2, THEN conjunct2, THEN conjunct2, rule_format, OF unset]
  from pos a b c d show ?thesis by (intro conjI)
qed

theorem C2_strategy_priority_counterexample:
  "Token ((initial_config (demo_data\<lparr>d_token := ''tok''\<rparr>) ''0.12'')\<lparr>MaxRetries := - 1\<rparr>) \<noteq> '''' \<and>
   fst (LoadAndValidate demo_env
          ((initial_config (demo_data\<lparr>d_token := ''tok''\<rparr>) ''0.12'')\<lparr>MaxRetries := - 1\<rparr>)
          empty_world) = Some (Errorf ''max_retries should be a positive value'') \<and>
   calls (snd (snd (LoadAndValidate demo_env
          ((initial_config (demo_data\<lparr>d_token := ''tok''\<rparr>) ''0.12'')\<lparr>MaxRetries := - 1\<rparr>)
          empty_world))) = [] \<and>
   fst (finish_setup demo_env (buildClientByToken demo_env
          ((initial_config (demo_data\<lparr>d_token := ''tok''\<rparr>) ''0.12'')\<lparr>MaxRetries := - 1\<rparr>)
          empty_world)) = None \<and>
   fst (LoadAndValidate demo_env
          ((initial_config (demo_data\<lparr>d_access_key := ''''\<rparr>) ''0.12'')\<lparr>MaxRetries := - 1\<rparr>)
          empty_world) = Some (Errorf ''max_retries should be a positive value'') \<and>
   Some (Errorf ''max_retries should be a positive value'') \<noteq> Some no_auth_method"
  by (simp add: setup_defs demo_defs no_auth_method_def)

text \<open>
  C3. For a catalog entry with a name and a version, a request for a region other than the
  provider's region is refused with the region-mismatch error when the access key or the
  secret key is empty (the authentication in use is then the token or the password), with
  nothing else done: no project is looked up, no request is sent. When the key pair is the
  authentication in use, the base client is there and the region is resolvable, the same
  request succeeds.
\<close>

theorem C3_region_override_needs_key_pair:
  assumes "cat_Name catalog \<noteq> ''''" and "cat_Version catalog \<noteq> ''''" and "region \<noteq> Region c"
  shows "(AccessKey c = '''' \<or> SecretKey c = '''' \<longrightarrow>
            \<not> uses_key_pair c \<and>
            newServiceClientByName env client catalog region c w = (Inl region_mismatch, c, w)) \<and>
         (uses_key_pair c \<and> deref w client \<noteq> None \<and> resolvable env client region c w \<longrightarrow>
            (\<exists>sc c' w'. newServiceClientByName env client catalog region c w = (Inr sc, c', w')))"
proof (intro conjI impI)
  assume "AccessKey c = '''' \<or> SecretKey c = ''''"
  then show "\<not> uses_key_pair c" by (auto simp: uses_key_pair_def)
next
  assume "AccessKey c = '''' \<or> SecretKey c = ''''"
  with assms
  show "newServiceClientByName env client catalog region c w = (Inl region_mismatch, c, w)"
    by (simp add: newServiceClientByName_def)
next
  assume a: "uses_key_pair c \<and> deref w client \<noteq> None \<and> resolvable env client region c w"
  then have keys: "region = Region c \<or> (AccessKey c \<noteq> '''' \<and> SecretKey c \<noteq> '''')"
    by (simp add: uses_key_pair_def)
  from a obtain cl where cl: "deref w client = Some cl" by blast
  obtain r1 c1 w1 where step: "newServiceClientByName env client catalog region c w = (r1, c1, w1)"
    by (cases "newServiceClientByName env client catalog region c w")
  show "\<exists>sc c' w'. newServiceClientByName env client catalog region c w = (Inr sc, c', w')"
  proof (cases "RegionProjectIDMap c region")
    case (Some p)
    with assms keys cl show ?thesis
      by (simp add: newServiceClientByName_def Let_def)
  next
    case None
    with a cl obtain pages ps where
      listed: "ListAllPages env (calls w) (IdentityEndpoint c @ ''/'')
                 \<lparr>lo_DomainID = pc_DomainID cl, lo_Name = region\<rparr> = Inr pages"
      and decoded: "ExtractProjects env pages = Inr ps" and ne: "ps \<noteq> []"
      by (auto simp: resolvable_def split: sum.splits)
    from nsc_miss_fill(1) [OF None assms(1,2) keys cl listed decoded ne step] step
    show ?thesis by blast
  qed
qed

theorem C3_region_override_needs_key_pair_witness:
  "''south'' \<noteq> Region token_only_config \<and> AccessKey token_only_config = '''' \<and>
   newServiceClientByName demo_env (Some 0) (lookup_catalog demo_env ''ecs'') ''south''
     token_only_config token_world = (Inl region_mismatch, token_only_config, token_world) \<and>
   ''south'' \<noteq> Region demo_config \<and> uses_key_pair demo_config \<and>
   resolvable demo_env (Some 0) ''south'' demo_config demo_world \<and>
   fst (newServiceClientByName demo_env (Some 0) (lookup_catalog demo_env ''ecs'') ''south''
     demo_config demo_world) =
     Inr \<lparr>sc_ProviderClient = Some 2, sc_Endpoint = ''https://ecs.south.example.com/'',
          sc_ResourceBase = ''https://ecs.south.example.com/v1/id-of-south/''\<rparr>"
proof -
  have name: "cat_Name (lookup_catalog demo_env ''ecs'') \<noteq> ''''"
    and version: "cat_Version (lookup_catalog demo_env ''ecs'') \<noteq> ''''"
    by (simp_all add: lookup_catalog_def demo_env_def demo_catalog_def)
  have other: "''south'' \<noteq> Region token_only_config" and other': "''south'' \<noteq> Region demo_config"
    by (simp_all add: token_only_config_def demo_config_def)
  have nokey: "AccessKey token_only_config = ''''"
    by (simp add: token_only_config_def demo_config_def)
  have keys: "uses_key_pair demo_config" by (simp add: uses_key_pair_def demo_config_def)
  have base: "deref demo_world (Some 0) \<noteq> None" by (simp add: deref_def demo_world_def)
  have res: "resolvable demo_env (Some 0) ''south'' demo_config demo_world"
    by (simp add: resolvable_def deref_def demo_world_def demo_env_def)
  from C3_region_override_needs_key_pair [OF name version other, THEN conjunct1, rule_format,
      OF disjI1, OF nokey, THEN conjunct2]
  have refused: "newServiceClientByName demo_env (Some 0) (lookup_catalog demo_env ''ecs'')
      ''south'' token_only_config token_world = (Inl region_mismatch, token_only_config, token_world)" .
  from C3_region_override_needs_key_pair [OF name version other', THEN conjunct2, rule_format,
      OF conjI, OF keys, OF conjI, OF base res]
  obtain sc c' w' where ok: "newServiceClientByName demo_env (Some 0)
      (lookup_catalog demo_env ''ecs'') ''south'' demo_config demo_world = (Inr sc, c', w')"
    by blast
  have eq: "newServiceClientByName demo_env (Some 0) (lookup_catalog demo_env ''ecs'')
      ''south'' demo_config demo_world = south_first"
    by (simp add: south_first_def NewServiceClient_def lookup_catalog_def demo_env_def
          demo_catalog_def demo_config_def)
  have same: "fst (newServiceClientByName demo_env (Some 0) (lookup_catalog demo_env ''ecs'')
      ''south'' demo_config demo_world) =
     Inr \<lparr>sc_ProviderClient = Some 2, sc_Endpoint = ''https://ecs.south.example.com/'',
          sc_ResourceBase = ''https://ecs.south.example.com/v1/id-of-south/''\<rparr>"
    unfolding eq south_first_value by simp
  from other nokey refused other' keys res same show ?thesis by blast
qed

theorem C3_region_override_needs_key_pair_counterexample:
  "configureProvider demo_env (demo_data\<lparr>d_token := ''tok''\<rparr>) ''0.12'' empty_world =
     (Inr token_config, token_world) \<and>
   \<not> uses_key_pair token_config \<and> ''south'' \<noteq> Region token_config \<and>
   fst (NewServiceClient demo_env ''ecs'' ''south'' token_config token_world) =
     Inr \<lparr>sc_ProviderClient = Some 2, sc_Endpoint = ''https://ecs.south.example.com/'',
          sc_ResourceBase = ''https://ecs.south.example.com/v1/id-of-south/''\<rparr> \<and>
   configureProvider demo_env
     (demo_data\<lparr>d_token := ''tok'', d_access_key := '''', d_secret_key := ''''\<rparr>) ''0.12''
     empty_world = (Inr token_only_config, token_world) \<and>
   \<not> uses_key_pair token_only_config \<and> ''south'' \<noteq> Region token_only_config \<and>
   fst (NewServiceClient demo_env ''broken'' ''south'' token_only_config token_world) =
     Inl (Errorf ''must specify the service name and api version'') \<and>
   Inl (Errorf ''must specify the service name and api version'') \<noteq>
     (Inl region_mismatch :: error + ServiceClient)"
proof -
  have a: "\<not> uses_key_pair token_config \<and> ''south'' \<noteq> Region token_config"
    by (simp add: uses_key_pair_def token_config_def demo_config_def)
  have b: "fst (NewServiceClient demo_env ''ecs'' ''south'' token_config token_world) =
     Inr \<lparr>sc_ProviderClient = Some 2, sc_Endpoint = ''https://ecs.south.example.com/'',
          sc_ResourceBase = ''https://ecs.south.example.com/v1/id-of-south/''\<rparr>"
    by (simp add: client_defs demo_defs token_config_def token_world_def)
  have c: "\<not> uses_key_pair token_only_config \<and> ''south'' \<noteq> Region token_only_config"
    by (simp add: uses_key_pair_def token_only_config_def demo_config_def)
  have d: "fst (NewServiceClient demo_env ''broken'' ''south'' token_only_config token_world) =
     Inl (Errorf ''must specify the service name and api version'')"
    by (simp add: client_defs demo_defs token_only_config_def)
  have e: "Inl (Errorf ''must specify the service name and api version'') \<noteq>
     (Inl region_mismatch :: error + ServiceClient)"
    by (simp add: region_mismatch_def)
  from token_setup a b token_only_setup c d e show ?thesis by blast
qed

text \<open>
  C4. A successful \<open>newServiceClientByName\<close> renders the endpoint without the region for a
  catalog entry of scope \<open>global\<close> when the provider is not in region-client mode, and with
  the region otherwise; the resource base is the endpoint, the version, the resolved
  project ID unless the entry is flagged \<open>WithOutProjectID\<close>, and the entry's resource base
  when it is not empty, each followed by a slash.
\<close>

theorem C4_endpoint_rendering:
  assumes "newServiceClientByName env client catalog region c w = (Inr sc, c', w')"
  shows "sc_Endpoint sc =
           (if cat_Scope catalog = ''global'' \<and> \<not> RegionClient c
            then ''https://'' @ cat_Name catalog @ ''.'' @ Cloud c @ ''/''
            else ''https://'' @ cat_Name catalog @ ''.'' @ region @ ''.'' @ Cloud c @ ''/'') \<and>
         sc_ResourceBase sc =
           sc_Endpoint sc @ cat_Version catalog @ ''/'' @
           (if cat_WithOutProjectID catalog then ''''
            else lookup_region (RegionProjectIDMap c') region @ ''/'') @
           (if cat_ResourceBase catalog = '''' then '''' else cat_ResourceBase catalog @ ''/'')"
  using assms
  by (auto simp: newServiceClientByName_def loadUserProjects_def render_endpoint_def
        render_resource_base_def Let_def
        split: if_splits option.splits sum.splits prod.splits)

theorem C4_endpoint_rendering_witness:
  "sc_Endpoint \<lparr>sc_ProviderClient = Some 2,
      sc_Endpoint = ''https://functiongraph.north.example.com/'',
      sc_ResourceBase = ''https://functiongraph.north.example.com/v2/id-of-north/fgs/''\<rparr> =
     ''https://functiongraph.north.example.com/'' \<and>
   sc_ResourceBase \<lparr>sc_ProviderClient = Some 2,
      sc_Endpoint = ''https://functiongraph.north.example.com/'',
      sc_ResourceBase = ''https://functiongraph.north.example.com/v2/id-of-north/fgs/''\<rparr> =
     ''https://functiongraph.north.example.com/'' @ ''v2'' @ ''/'' @
       (lookup_region (RegionProjectIDMap demo_config) ''north'' @ ''/'') @ (''fgs'' @ ''/'')"
  using C4_endpoint_rendering [OF demo_functiongraph]
  by (simp add: lookup_catalog_def demo_env_def demo_catalog_def demo_config_def)

text \<open>
  C5. For a region that is not in \<open>RegionProjectIDMap\<close>, a first construction whose
  listing succeeds with a project named as the region stores the region with the ID of the
  last such project and sends one request. After that, whatever clients are constructed in
  between, the region stays in the map, and a construction for it leaves the configuration
  as it is, sends no request and gives its client the cached project ID; when the identity
  service honours the name filter, the cached value is still the one stored first.
\<close>

theorem C5_cache_fill:
  assumes miss: "RegionProjectIDMap c region = None"
    and name: "cat_Name catalog \<noteq> ''''" and version: "cat_Version catalog \<noteq> ''''"
    and allowed: "region = Region c \<or> (AccessKey c \<noteq> '''' \<and> SecretKey c \<noteq> '''')"
    and base: "deref w client = Some cl"
    and listed: "ListAllPages env (calls w) (IdentityEndpoint c @ ''/'')
                   \<lparr>lo_DomainID = pc_DomainID cl, lo_Name = region\<rparr> = Inr pages"
    and decoded: "ExtractProjects env pages = Inr ps"
    and named: "\<exists>p \<in> set ps. proj_Name p = region"
    and first: "newServiceClientByName env client catalog region c w = (r1, c1, w1)"
    and between: "run_clients env ops c1 w1 = (c2, w2)"
    and later: "newServiceClientByName env client' catalog' region c2 w2 = (r3, c3, w3)"
  shows "(\<exists>sc. r1 = Inr sc) \<and>
     RegionProjectIDMap c1 region =
       Some (proj_ID (last (filter (\<lambda>p. proj_Name p = region) ps))) \<and>
     calls w1 = calls w @ [ListProjectsCall (IdentityEndpoint c @ ''/'') client
                             \<lparr>lo_DomainID = pc_DomainID cl, lo_Name = region\<rparr>] \<and>
     RegionProjectIDMap c2 region \<noteq> None \<and>
     c3 = c2 \<and> calls w3 = calls w2 \<and>
     (\<forall>sc. r3 = Inr sc \<longrightarrow>
        (\<exists>cl'. deref w3 (sc_ProviderClient sc) = Some cl' \<and>
               RegionProjectIDMap c2 region = Some (pc_ProjectID cl'))) \<and>
     (honours_name_filter env \<longrightarrow> RegionProjectIDMap c2 region = RegionProjectIDMap c1 region)"
proof -
  from named have ne: "ps \<noteq> []" by auto
  note fill = nsc_miss_fill [OF miss name version allowed base listed decoded ne first]
  from fill(2) named
  have stored: "RegionProjectIDMap c1 region =
      Some (proj_ID (last (filter (\<lambda>p. proj_Name p = region) ps)))"
    by (simp add: store_projects_value)
  from run_clients_dom [OF between] stored
  obtain p where cached: "RegionProjectIDMap c2 region = Some p" by blast
  note hit = nsc_hit [OF cached later]
  have kept: "RegionProjectIDMap c2 region = RegionProjectIDMap c1 region"
    if "honours_name_filter env"
  proof -
    from run_clients_le [OF between that]
    have "RegionProjectIDMap c1 \<subseteq>\<^sub>m RegionProjectIDMap c2" .
    with stored show ?thesis by (auto simp: map_le_def dom_def)
  qed
  from hit(4) cached
  have reads: "\<forall>sc. r3 = Inr sc \<longrightarrow>
        (\<exists>cl'. deref w3 (sc_ProviderClient sc) = Some cl' \<and>
               RegionProjectIDMap c2 region = Some (pc_ProjectID cl'))"
    by auto
  from fill(1) stored fill(3) cached hit(1) hit(2) reads kept show ?thesis by simp
qed

theorem C5_cache_fill_witness:
  "RegionProjectIDMap demo_config ''south'' = None \<and>
   RegionProjectIDMap (fst (snd south_first)) ''south'' = Some ''id-of-south'' \<and>
   length (calls (snd (snd south_first))) = length (calls demo_world) + 1 \<and>
   calls (snd (snd (newServiceClientByName demo_env (Some 0) (lookup_catalog demo_env ''fgsv2'')
            ''south'' (fst (snd south_first)) (snd (snd south_first))))) =
     calls (snd (snd south_first))"
proof -
  have miss: "RegionProjectIDMap demo_config ''south'' = None"
    by (simp add: demo_config_def)
  have name: "cat_Name (lookup_catalog demo_env ''ecs'') \<noteq> ''''"
    and version: "cat_Version (lookup_catalog demo_env ''ecs'') \<noteq> ''''"
    by (simp_all add: lookup_catalog_def demo_env_def demo_catalog_def)
  have allowed: "''south'' = Region demo_config \<or>
      (AccessKey demo_config \<noteq> '''' \<and> SecretKey demo_config \<noteq> '''')"
    by (simp add: demo_config_def)
  have base: "deref demo_world (Some 0) = Some (clients demo_world ! 0)"
    by (simp add: deref_def demo_world_def)
  have listed: "ListAllPages demo_env (calls demo_world) (IdentityEndpoint demo_config @ ''/'')
      \<lparr>lo_DomainID = pc_DomainID (clients demo_world ! 0), lo_Name = ''south''\<rparr> = Inr ''south''"
    by (simp add: demo_env_def)
  have decoded: "ExtractProjects demo_env ''south'' =
      Inr [\<lparr>proj_Name = ''south'', proj_ID = ''id-of-south''\<rparr>]"
    by (simp add: demo_env_def)
  have named: "\<exists>p \<in> set [\<lparr>proj_Name = ''south'', proj_ID = ''id-of-south''\<rparr>].
      proj_Name p = ''south''"
    by simp
  have first: "newServiceClientByName demo_env (Some 0) (lookup_catalog demo_env ''ecs'')
      ''south'' demo_config demo_world =
      (fst south_first, fst (snd south_first), snd (snd south_first))"
    by (simp add: south_first_def NewServiceClient_def lookup_catalog_def demo_env_def
          demo_catalog_def demo_config_def)
  have between: "run_clients demo_env [] (fst (snd south_first)) (snd (snd south_first)) =
      (fst (snd south_first), snd (snd south_first))"
    by simp
  have later: "newServiceClientByName demo_env (Some 0) (lookup_catalog demo_env ''fgsv2'')
      ''south'' (fst (snd south_first)) (snd (snd south_first)) =
      (fst (newServiceClientByName demo_env (Some 0) (lookup_catalog demo_env ''fgsv2'')
         ''south'' (fst (snd south_first)) (snd (snd south_first))),
       fst (snd (newServiceClientByName demo_env (Some 0) (lookup_catalog demo_env ''fgsv2'')
         ''south'' (fst (snd south_first)) (snd (snd south_first)))),
       snd (snd (newServiceClientByName demo_env (Some 0) (lookup_catalog demo_env ''fgsv2'')
         ''south'' (fst (snd south_first)) (snd (snd south_first)))))"
    by simp
  note c5 = C5_cache_fill [OF miss name version allowed base listed decoded named first
      between later]
  from c5 have stored: "RegionProjectIDMap (fst (snd south_first)) ''south'' = Some ''id-of-south''"
    by simp
  from c5 have sent: "length (calls (snd (snd south_first))) = length (calls demo_world) + 1"
    by simp
  from c5 have quiet: "calls (snd (snd (newServiceClientByName demo_env (Some 0)
      (lookup_catalog demo_env ''fgsv2'') ''south'' (fst (snd south_first))
      (snd (snd south_first))))) = calls (snd (snd south_first))"
    by simp
  from miss stored sent quiet show ?thesis by blast
qed

theorem C5_cache_fill_counterexample:
  "RegionProjectIDMap demo_config ''south'' = None \<and>
   ExtractProjects unfiltered_env ''south'' = Inr [\<lparr>proj_Name = ''north'', proj_ID = ''other-id''\<rparr>] \<and>
   fst south_unfiltered =
     Inr \<lparr>sc_ProviderClient = Some 2, sc_Endpoint = ''https://ecs.south.example.com/'',
          sc_ResourceBase = ''https://ecs.south.example.com/v1//''\<rparr> \<and>
   RegionProjectIDMap (fst (snd south_unfiltered)) ''south'' = None \<and>
   length (calls (snd (snd south_unfiltered))) = 3 \<and>
   length (calls (snd (snd (NewServiceClient unfiltered_env ''ecs'' ''south''
             (fst (snd south_unfiltered)) (snd (snd south_unfiltered)))))) = 4"
  by (simp add: south_unfiltered_def unfiltered_env_def client_defs demo_defs)

text \<open>
  C6. When the listing of projects succeeds with no project, \<open>loadUserProjects\<close> fails with
  "Wrong name or no access to the region: " followed by the region, and when the listing or
  its decoding fails, it fails with that error (prefixed); in each case the configuration,
  and so \<open>RegionProjectIDMap\<close>, is as before and one request has been sent. Nothing is
  remembered of a failure: the next \<open>loadUserProjects\<close>, and the next
  \<open>newServiceClientByName\<close> for a region that was not cached, sends the request again.
\<close>

theorem C6_no_negative_caching:
  assumes "deref w client = Some cl"
    and "opts = \<lparr>lo_DomainID = pc_DomainID cl, lo_Name = region\<rparr>"
    and "q = ListProjectsCall (IdentityEndpoint c @ ''/'') client opts"
    and "answer = ListAllPages env (calls w) (IdentityEndpoint c @ ''/'') opts"
  shows
    "(\<forall>pages. answer = Inr pages \<and> ExtractProjects env pages = Inr [] \<longrightarrow>
        loadUserProjects env client region c w =
          (Some (Errorf (''Wrong name or no access to the region: '' @ region)), c,
           w\<lparr>calls := calls w @ [q]\<rparr>)) \<and>
     (\<forall>e. answer = Inl e \<longrightarrow>
        loadUserProjects env client region c w =
          (Some (Errorf (''List projects failed, err='' @ e)), c, w\<lparr>calls := calls w @ [q]\<rparr>)) \<and>
     (\<forall>pages e. answer = Inr pages \<and> ExtractProjects env pages = Inl e \<longrightarrow>
        loadUserProjects env client region c w =
          (Some (Errorf (''Extract projects failed, err='' @ e)), c,
           w\<lparr>calls := calls w @ [q]\<rparr>)) \<and>
     (\<forall>err c1 w1. loadUserProjects env client region c w = (Some err, c1, w1) \<longrightarrow>
        c1 = c \<and> w1 = w\<lparr>calls := calls w @ [q]\<rparr> \<and>
        calls (snd (snd (loadUserProjects env client region c1 w1))) = calls w1 @ [q] \<and>
        (\<forall>catalog. RegionProjectIDMap c region = None \<and> cat_Name catalog \<noteq> '''' \<and>
            cat_Version catalog \<noteq> '''' \<and>
            (region = Region c \<or> AccessKey c \<noteq> '''' \<and> SecretKey c \<noteq> '''') \<longrightarrow>
            calls (snd (snd (newServiceClientByName env client catalog region c1 w1))) =
              calls w1 @ [q]))"
proof -
  have zero: "\<And>pages. answer = Inr pages \<Longrightarrow> ExtractProjects env pages = Inr [] \<Longrightarrow>
      loadUserProjects env client region c w =
        (Some (Errorf (''Wrong name or no access to the region: '' @ region)), c,
         w\<lparr>calls := calls w @ [q]\<rparr>)"
    using assms by (simp add: loadUserProjects_def Let_def)
  have list: "\<And>e. answer = Inl e \<Longrightarrow>
      loadUserProjects env client region c w =
        (Some (Errorf (''List projects failed, err='' @ e)), c, w\<lparr>calls := calls w @ [q]\<rparr>)"
    using assms by (simp add: loadUserProjects_def Let_def)
  have decode: "\<And>pages e. answer = Inr pages \<Longrightarrow> ExtractProjects env pages = Inl e \<Longrightarrow>
      loadUserProjects env client region c w =
        (Some (Errorf (''Extract projects failed, err='' @ e)), c, w\<lparr>calls := calls w @ [q]\<rparr>)"
    using assms by (simp add: loadUserProjects_def Let_def)
  have retry: "c1 = c \<and> w1 = w\<lparr>calls := calls w @ [q]\<rparr> \<and>
        calls (snd (snd (loadUserProjects env client region c1 w1))) = calls w1 @ [q] \<and>
        (\<forall>catalog. RegionProjectIDMap c region = None \<and> cat_Name catalog \<noteq> '''' \<and>
            cat_Version catalog \<noteq> '''' \<and>
            (region = Region c \<or> AccessKey c \<noteq> '''' \<and> SecretKey c \<noteq> '''') \<longrightarrow>
            calls (snd (snd (newServiceClientByName env client catalog region c1 w1))) =
              calls w1 @ [q])"
    if failed: "loadUserProjects env client region c w = (Some err, c1, w1)" for err c1 w1
  proof -
    from failed have c1: "c1 = c" by (rule loadUserProjects_frame(4)) simp
    from failed assms have w1: "w1 = w\<lparr>calls := calls w @ [q]\<rparr>"
      by (auto simp: loadUserProjects_def Let_def split: sum.splits if_splits)
    from w1 assms(1) have cl: "deref w1 client = Some cl" by (simp add: deref_calls)
    from cl assms(2,3) c1
    have again: "calls (snd (snd (loadUserProjects env client region c1 w1))) = calls w1 @ [q]"
      by (auto simp: loadUserProjects_def Let_def split: sum.splits)
    have "calls (snd (snd (newServiceClientByName env client catalog region c1 w1))) =
            calls w1 @ [q]"
      if "RegionProjectIDMap c region = None" and "cat_Name catalog \<noteq> ''''"
        and "cat_Version catalog \<noteq> ''''"
        and "region = Region c \<or> AccessKey c \<noteq> '''' \<and> SecretKey c \<noteq> ''''" for catalog
      using nsc_miss_query [of c1 region catalog w1 client cl env] that cl c1 assms(2,3)
      by simp
    with c1 w1 again show ?thesis by blast
  qed
  from zero list decode retry show ?thesis by blast
qed

theorem C6_no_negative_caching_witness:
  "loadUserProjects demo_env (Some 0) ''nowhere'' demo_config demo_world =
     (Some (Errorf (''Wrong name or no access to the region: '' @ ''nowhere'')), demo_config,
      demo_world\<lparr>calls := calls demo_world @
        [ListProjectsCall (IdentityEndpoint demo_config @ ''/'') (Some 0)
           \<lparr>lo_DomainID = pc_DomainID (clients demo_world ! 0), lo_Name = ''nowhere''\<rparr>]\<rparr>) \<and>
   loadUserProjects demo_env (Some 0) ''offline'' demo_config demo_world =
     (Some (Errorf (''List projects failed, err='' @ ''connection refused'')), demo_config,
      demo_world\<lparr>calls := calls demo_world @
        [ListProjectsCall (IdentityEndpoint demo_config @ ''/'') (Some 0)
           \<lparr>lo_DomainID = pc_DomainID (clients demo_world ! 0), lo_Name = ''offline''\<rparr>]\<rparr>)"
proof -
  have cl: "deref demo_world (Some 0) = Some (clients demo_world ! 0)"
    by (simp add: deref_def demo_world_def)
  have nowhere: "ListAllPages demo_env (calls demo_world) (IdentityEndpoint demo_config @ ''/'')
        \<lparr>lo_DomainID = pc_DomainID (clients demo_world ! 0), lo_Name = ''nowhere''\<rparr> =
        Inr ''nowhere'' \<and>
      ExtractProjects demo_env ''nowhere'' = Inr []"
    by (simp add: demo_env_def)
  have offline: "ListAllPages demo_env (calls demo_world) (IdentityEndpoint demo_config @ ''/'')
        \<lparr>lo_DomainID = pc_DomainID (clients demo_world ! 0), lo_Name = ''offline''\<rparr> =
        Inl ''connection refused''"
    by (simp add: demo_env_def)
  note a = C6_no_negative_caching [OF cl refl refl refl,
      where region = "''nowhere''" and c = demo_config and env = demo_env,
      THEN conjunct1, rule_format, OF nowhere]
  note b = C6_no_negative_caching [OF cl refl refl refl,
      where region = "''offline''" and c = demo_config and env = demo_env,
      THEN conjunct2, THEN conjunct1, rule_format, OF offline]
  from a b show ?thesis by (rule conjI)
qed

text \<open>
  C7. A successful \<open>newServiceClientByName\<close> leaves the base client as it was: the store
  after the call is the store before it with one new client at the end, and the two client
  pointers of the configuration are as before. The new client is the base client with the
  project ID, and the project ID and region of the key-pair options, overridden; the
  service client points to it, at an address other than the base's. The copy is shallow:
  the new client has the transport pointer of the base.
\<close>

theorem C7_base_client_unchanged:
  assumes "newServiceClientByName env client catalog region c w = (Inr sc, c', w')"
  shows "\<exists>base. deref w client = Some base \<and> deref w' client = Some base \<and>
     HwClient c' = HwClient c \<and> DomainClient c' = DomainClient c \<and>
     transports w' = transports w \<and>
     clients w' = clients w @
       [base\<lparr>pc_ProjectID := lookup_region (RegionProjectIDMap c') region,
             pc_AKSKAuthOptions := (pc_AKSKAuthOptions base)
               \<lparr>aksk_ProjectId := lookup_region (RegionProjectIDMap c') region,
                aksk_Region := region\<rparr>\<rparr>] \<and>
     sc_ProviderClient sc = Some (length (clients w)) \<and>
     sc_ProviderClient sc \<noteq> client \<and>
     pc_Transport (last (clients w')) = pc_Transport base"
proof -
  from nsc_success_shape [OF assms] obtain base w1 where
    base: "deref w client = Some base" and cl: "clients w1 = clients w"
    and tr: "transports w1 = transports w"
    and w': "w' = w1\<lparr>clients := clients w1 @
            [base\<lparr>pc_ProjectID := lookup_region (RegionProjectIDMap c') region,
                 pc_AKSKAuthOptions := (pc_AKSKAuthOptions base)
                   \<lparr>aksk_ProjectId := lookup_region (RegionProjectIDMap c') region,
                    aksk_Region := region\<rparr>\<rparr>]\<rparr>"
    and sc: "sc_ProviderClient sc = Some (length (clients w))"
    by blast
  from base obtain a where a: "client = Some a" "a < length (clients w)" "clients w ! a = base"
    by (cases client) (auto simp: deref_def split: if_splits)
  from w' cl have clients': "clients w' = clients w @
       [base\<lparr>pc_ProjectID := lookup_region (RegionProjectIDMap c') region,
             pc_AKSKAuthOptions := (pc_AKSKAuthOptions base)
               \<lparr>aksk_ProjectId := lookup_region (RegionProjectIDMap c') region,
                aksk_Region := region\<rparr>\<rparr>]"
    by simp
  from clients' a have after: "deref w' client = Some base"
    by (simp add: deref_def nth_append)
  from w' tr have tr': "transports w' = transports w" by simp
  from sc a have fresh: "sc_ProviderClient sc \<noteq> client" by simp
  from clients' have shared: "pc_Transport (last (clients w')) = pc_Transport base" by simp
  from base after nsc_clients_kept [OF assms] tr' clients' sc fresh shared
  show ?thesis by blast
qed

theorem C7_base_client_unchanged_witness:
  "deref (snd (snd (NewServiceClient demo_env ''ecs'' ''north'' demo_config demo_world)))
     (HwClient demo_config) = deref demo_world (HwClient demo_config) \<and>
   deref demo_world (HwClient demo_config) \<noteq> None \<and>
   length (clients (snd (snd (NewServiceClient demo_env ''ecs'' ''north'' demo_config demo_world)))) =
     length (clients demo_world) + 1"
proof -
  have step: "newServiceClientByName demo_env (HwClient demo_config)
      (lookup_catalog demo_env ''ecs'') ''north'' demo_config demo_world =
    (Inr \<lparr>sc_ProviderClient = Some 2, sc_Endpoint = ''https://ecs.north.example.com/'',
          sc_ResourceBase = ''https://ecs.north.example.com/v1/id-of-north/''\<rparr>,
     fst (snd (NewServiceClient demo_env ''ecs'' ''north'' demo_config demo_world)),
     snd (snd (NewServiceClient demo_env ''ecs'' ''north'' demo_config demo_world)))"
    using north_client_value
    by (simp add: NewServiceClient_def lookup_catalog_def demo_env_def demo_catalog_def)
  from C7_base_client_unchanged [OF step] show ?thesis by auto
qed

theorem C7_base_client_unchanged_counterexample:
  "configureProvider demo_env demo_data ''0.12'' empty_world = (Inr demo_config, demo_world) \<and>
   HwClient demo_config = Some 0 \<and>
   fst (NewServiceClient demo_env ''ecs'' ''north'' demo_config demo_world) =
     Inr \<lparr>sc_ProviderClient = Some 2, sc_Endpoint = ''https://ecs.north.example.com/'',
          sc_ResourceBase = ''https://ecs.north.example.com/v1/id-of-north/''\<rparr> \<and>
   shares_transport (snd (snd (NewServiceClient demo_env ''ecs'' ''north'' demo_config demo_world)))
     (Some 0) (Some 2)"
proof -
  have "HwClient demo_config = Some 0" by (simp add: demo_config_def)
  moreover have "shares_transport
      (snd (snd (NewServiceClient demo_env ''ecs'' ''north'' demo_config demo_world)))
      (Some 0) (Some 2)"
    unfolding north_client_value by (simp add: shares_transport_def deref_def demo_world_def)
  moreover have "fst (NewServiceClient demo_env ''ecs'' ''north'' demo_config demo_world) =
     Inr \<lparr>sc_ProviderClient = Some 2, sc_Endpoint = ''https://ecs.north.example.com/'',
          sc_ResourceBase = ''https://ecs.north.example.com/v1/id-of-north/''\<rparr>"
    unfolding north_client_value by simp
  ultimately show ?thesis using demo_setup by blast
qed

text \<open>
  C8. No operation removes an entry of \<open>RegionProjectIDMap\<close>: after \<open>loadUserProjects\<close>,
  after \<open>newServiceClientByName\<close> and after any run of the accessors, every region that was
  in the map is still in it. A construction that finds the region in the map, and one that
  fails, leaves the map as it is. A cache fill stores each listed project under the project's
  own name; so when the identity service honours the name filter, every entry keeps its value
  through every run.
\<close>

theorem C8_region_map_grows:
  "(\<forall>e c1 w1. loadUserProjects env client region c w = (e, c1, w1) \<longrightarrow>
      dom (RegionProjectIDMap c) \<subseteq> dom (RegionProjectIDMap c1)) \<and>
   (\<forall>r c1 w1. newServiceClientByName env client catalog region c w = (r, c1, w1) \<longrightarrow>
      dom (RegionProjectIDMap c) \<subseteq> dom (RegionProjectIDMap c1) \<and>
      (RegionProjectIDMap c region \<noteq> None \<longrightarrow> c1 = c) \<and>
      ((\<exists>err. r = Inl err) \<longrightarrow> c1 = c) \<and>
      (honours_name_filter env \<longrightarrow> RegionProjectIDMap c \<subseteq>\<^sub>m RegionProjectIDMap c1)) \<and>
   (\<forall>c' w'. run_clients env ops c w = (c', w') \<longrightarrow>
      dom (RegionProjectIDMap c) \<subseteq> dom (RegionProjectIDMap c') \<and>
      (honours_name_filter env \<longrightarrow> RegionProjectIDMap c \<subseteq>\<^sub>m RegionProjectIDMap c'))"
proof -
  have load: "\<forall>e c1 w1. loadUserProjects env client region c w = (e, c1, w1) \<longrightarrow>
      dom (RegionProjectIDMap c) \<subseteq> dom (RegionProjectIDMap c1)"
    using loadUserProjects_dom by blast
  have one: "\<forall>r c1 w1. newServiceClientByName env client catalog region c w = (r, c1, w1) \<longrightarrow>
      dom (RegionProjectIDMap c) \<subseteq> dom (RegionProjectIDMap c1) \<and>
      (RegionProjectIDMap c region \<noteq> None \<longrightarrow> c1 = c) \<and>
      ((\<exists>err. r = Inl err) \<longrightarrow> c1 = c) \<and>
      (honours_name_filter env \<longrightarrow> RegionProjectIDMap c \<subseteq>\<^sub>m RegionProjectIDMap c1)"
  proof (intro allI impI conjI)
    fix r c1 w1
    assume step: "newServiceClientByName env client catalog region c w = (r, c1, w1)"
    from step show "dom (RegionProjectIDMap c) \<subseteq> dom (RegionProjectIDMap c1)"
      by (rule nsc_dom)
    show "c1 = c" if "RegionProjectIDMap c region \<noteq> None"
    proof -
      from that obtain p where "RegionProjectIDMap c region = Some p" by blast
      from nsc_hit(1) [OF this step] show ?thesis .
    qed
    show "c1 = c" if "\<exists>err. r = Inl err"
      using that step nsc_failure_keeps_config by blast
    show "RegionProjectIDMap c \<subseteq>\<^sub>m RegionProjectIDMap c1" if "honours_name_filter env"
      using step that by (rule nsc_le)
  qed
  have many: "\<forall>c' w'. run_clients env ops c w = (c', w') \<longrightarrow>
      dom (RegionProjectIDMap c) \<subseteq> dom (RegionProjectIDMap c') \<and>
      (honours_name_filter env \<longrightarrow> RegionProjectIDMap c \<subseteq>\<^sub>m RegionProjectIDMap c')"
    using run_clients_dom run_clients_le by blast
  from load one many show ?thesis by (intro conjI)
qed

theorem C8_region_map_grows_witness:
  "honours_name_filter demo_env \<and>
   dom (RegionProjectIDMap demo_config) \<subseteq>
     dom (RegionProjectIDMap
       (fst (run_clients demo_env [(''ecs'', ''south''), (''nosuch'', ''north''), (''ecs'', ''nowhere'')]
          demo_config demo_world))) \<and>
   RegionProjectIDMap demo_config \<subseteq>\<^sub>m
     RegionProjectIDMap
       (fst (run_clients demo_env [(''ecs'', ''south''), (''nosuch'', ''north''), (''ecs'', ''nowhere'')]
          demo_config demo_world))"
proof -
  have run: "run_clients demo_env [(''ecs'', ''south''), (''nosuch'', ''north''), (''ecs'', ''nowhere'')]
      demo_config demo_world =
    (fst (run_clients demo_env [(''ecs'', ''south''), (''nosuch'', ''north''), (''ecs'', ''nowhere'')]
       demo_config demo_world),
     snd (run_clients demo_env [(''ecs'', ''south''), (''nosuch'', ''north''), (''ecs'', ''nowhere'')]
       demo_config demo_world))"
    by simp
  note c8 = C8_region_map_grows [where env = demo_env and c = demo_config and w = demo_world
      and ops = "[(''ecs'', ''south''), (''nosuch'', ''north''), (''ecs'', ''nowhere'')]",
      THEN conjunct2, THEN conjunct2, rule_format, OF run]
  from c8 demo_honours_name_filter show ?thesis by blast
qed

theorem C8_region_map_grows_counterexample:
  "configureProvider unfiltered_env demo_data ''0.12'' empty_world = (Inr demo_config, demo_world) \<and>
   RegionProjectIDMap demo_config ''north'' = Some ''id-of-north'' \<and>
   RegionProjectIDMap
     (fst (run_clients unfiltered_env [(''ecs'', ''south'')] demo_config demo_world)) ''north'' =
     Some ''other-id''"
proof -
  have "RegionProjectIDMap demo_config ''north'' = Some ''id-of-north''"
    by (simp add: demo_config_def)
  moreover have "RegionProjectIDMap
     (fst (run_clients unfiltered_env [(''ecs'', ''south'')] demo_config demo_world)) ''north'' =
     Some ''other-id''"
    by (simp add: unfiltered_env_def client_defs demo_defs)
  ultimately show ?thesis using unfiltered_setup by blast
qed

text \<open>
  C9. For a service name that is absent from the catalog, the lookup gives the zero-valued
  entry and the project-scoped client is the base; for such a name, and for an entry whose
  name or version is empty, \<open>NewServiceClient\<close> returns the error "must specify the service
  name and api version" with nothing else done: the configuration and the store are as
  before, and no request is sent.
\<close>

theorem C9_unknown_service_rejected:
  "(allServiceCatalog env srv = None \<longrightarrow>
      lookup_catalog env srv = zero_ServiceCatalog \<and>
      NewServiceClient env srv region c w =
        newServiceClientByName env (HwClient c) zero_ServiceCatalog region c w) \<and>
   (allServiceCatalog env srv = None \<or> cat_Name (lookup_catalog env srv) = '''' \<or>
      cat_Version (lookup_catalog env srv) = '''' \<longrightarrow>
      NewServiceClient env srv region c w =
        (Inl (Errorf ''must specify the service name and api version''), c, w))"
  by (auto simp: NewServiceClient_def lookup_catalog_def zero_ServiceCatalog_def
        newServiceClientByName_def)

theorem C9_unknown_service_rejected_witness:
  "allServiceCatalog demo_env ''nosuch'' = None \<and>
   NewServiceClient demo_env ''nosuch'' ''south'' (initial_config demo_data ''0.12'') empty_world =
     (Inl (Errorf ''must specify the service name and api version''),
      initial_config demo_data ''0.12'', empty_world) \<and>
   cat_Version (lookup_catalog demo_env ''broken'') = '''' \<and>
   NewServiceClient demo_env ''broken'' ''north'' demo_config demo_world =
     (Inl (Errorf ''must specify the service name and api version''), demo_config, demo_world)"
proof -
  have absent: "allServiceCatalog demo_env ''nosuch'' = None"
    by (simp add: demo_env_def demo_catalog_def)
  have empty: "cat_Version (lookup_catalog demo_env ''broken'') = ''''"
    by (simp add: demo_env_def demo_catalog_def lookup_catalog_def)
  from absent
    C9_unknown_service_rejected
      [of demo_env "''nosuch''" "''south''" "initial_config demo_data ''0.12''" empty_world]
  have "NewServiceClient demo_env ''nosuch'' ''south'' (initial_config demo_data ''0.12'')
          empty_world =
        (Inl (Errorf ''must specify the service name and api version''),
         initial_config demo_data ''0.12'', empty_world)"
    by blast
  moreover from empty
    C9_unknown_service_rejected [of demo_env "''broken''" "''north''" demo_config demo_world]
  have "NewServiceClient demo_env ''broken'' ''north'' demo_config demo_world =
        (Inl (Errorf ''must specify the service name and api version''), demo_config, demo_world)"
    by blast
  ultimately show ?thesis using absent empty by blast
qed

text \<open>
  C10. When \<open>configureProvider\<close> succeeds and the project-scoped client carries a project ID
  that is not empty, \<open>RegionProjectIDMap\<close> holds exactly the default region with that project
  ID; so a construction of a service client for the default region, for any service name,
  sends no request, leaves the configuration as it is and gives its client that project ID.
\<close>

theorem C10_default_region_preseeded:
  assumes "configureProvider env d terraformVersion w = (Inr c, w')"
    and "deref w' (HwClient c) = Some hw" and "pc_ProjectID hw \<noteq> ''''"
  shows "Region c = d_region d \<and>
     RegionProjectIDMap c = [d_region d \<mapsto> pc_ProjectID hw] \<and>
     (\<forall>srv r c1 w1. NewServiceClient env srv (Region c) c w' = (r, c1, w1) \<longrightarrow>
        c1 = c \<and> calls w1 = calls w' \<and>
        (\<forall>sc. r = Inr sc \<longrightarrow>
           (\<exists>cl. deref w1 (sc_ProviderClient sc) = Some cl \<and>
                 pc_ProjectID cl = pc_ProjectID hw)))"
proof -
  obtain e c0 w0 where lv: "LoadAndValidate env (initial_config d terraformVersion) w = (e, c0, w0)"
    by (cases "LoadAndValidate env (initial_config d terraformVersion) w")
  from LoadAndValidate_frame [OF lv] obtain h dc s where
    c0: "c0 = (initial_config d terraformVersion)\<lparr>HwClient := h, DomainClient := dc, s3sess := s\<rparr>"
    by blast
  from c0 have region0: "Region c0 = d_region d" and map0: "RegionProjectIDMap c0 = Map.empty"
    by (simp_all add: initial_config_def)
  from assms(1) lv have ok: "e = None" and w0: "w0 = w'"
    by (auto simp: configureProvider_def split: option.splits if_splits)
  from assms(1) lv ok w0 assms(2,3)
  have seeded: "c = c0\<lparr>RegionProjectIDMap := (RegionProjectIDMap c0)(Region c0 \<mapsto> pc_ProjectID hw)\<rparr>"
    by (auto simp: configureProvider_def split: option.splits if_splits)
  from seeded region0 have region: "Region c = d_region d" by simp
  from seeded region0 map0 have map: "RegionProjectIDMap c = [d_region d \<mapsto> pc_ProjectID hw]"
    by simp
  from map region have cached: "RegionProjectIDMap c (Region c) = Some (pc_ProjectID hw)" by simp
  have hit: "c1 = c \<and> calls w1 = calls w' \<and>
        (\<forall>sc. r = Inr sc \<longrightarrow>
           (\<exists>cl. deref w1 (sc_ProviderClient sc) = Some cl \<and>
                 pc_ProjectID cl = pc_ProjectID hw))"
    if step: "NewServiceClient env srv (Region c) c w' = (r, c1, w1)" for srv r c1 w1
  proof -
    from step have byname: "newServiceClientByName env
        (if cat_Admin (lookup_catalog env srv) then DomainClient c else HwClient c)
        (lookup_catalog env srv) (Region c) c w' = (r, c1, w1)"
      by (simp add: NewServiceClient_def Let_def)
    from nsc_hit(1) [OF cached byname] nsc_hit(2) [OF cached byname] nsc_hit(4) [OF cached byname]
    show ?thesis by blast
  qed
  from region map hit show ?thesis by blast
qed

theorem C10_default_region_preseeded_witness:
  "RegionProjectIDMap demo_config = [d_region demo_data \<mapsto> pc_ProjectID (clients demo_world ! 0)] \<and>
   pc_ProjectID (clients demo_world ! 0) = ''id-of-north'' \<and>
   calls (snd (snd (NewServiceClient demo_env ''ecs'' (Region demo_config) demo_config
            demo_world))) = calls demo_world"
proof -
  have hw: "deref demo_world (HwClient demo_config) = Some (clients demo_world ! 0)"
    by (simp add: deref_def demo_world_def demo_config_def)
  have pid: "pc_ProjectID (clients demo_world ! 0) = ''id-of-north''"
    by (simp add: demo_world_def)
  then have ne: "pc_ProjectID (clients demo_world ! 0) \<noteq> ''''" by simp
  note c10 = C10_default_region_preseeded [OF demo_setup hw ne]
  have step: "NewServiceClient demo_env ''ecs'' (Region demo_config) demo_config demo_world =
     (fst (NewServiceClient demo_env ''ecs'' (Region demo_config) demo_config demo_world),
      fst (snd (NewServiceClient demo_env ''ecs'' (Region demo_config) demo_config demo_world)),
      snd (snd (NewServiceClient demo_env ''ecs'' (Region demo_config) demo_config demo_world)))"
    by simp
  from c10 [THEN conjunct2, THEN conjunct2, rule_format, OF step]
  have "calls (snd (snd (NewServiceClient demo_env ''ecs'' (Region demo_config) demo_config
            demo_world))) = calls demo_world"
    by blast
  with c10 [THEN conjunct2, THEN conjunct1] pid show ?thesis by blast
qed

end
